theory Spec2Isabelle
  imports Complex_Main "HOL-Library.Word"
begin

section \<open>Failures\<close>

text \<open>
  The macros of \<^verbatim>\<open>ink/engine/util/dbg/errors.h\<close> stop the running operation. Each
  one is a constructor carrying the text of the failed check: \<^verbatim>\<open>EXPECT(c)\<close> is always
  checked, \<^verbatim>\<open>ASSERT(c)\<close> is modelled as checked (a build with assertions on), and
  \<^verbatim>\<open>RUNTIME_ERROR(msg)\<close> is the explicit fatal error. \<open>OutOfRange\<close> is the
  \<^verbatim>\<open>std::out_of_range\<close> that \<^verbatim>\<open>std::vector::at\<close> throws. Reading a \<^verbatim>\<open>std::vector\<close>
  outside its bounds with \<^verbatim>\<open>operator[]\<close> or through \<^verbatim>\<open>begin()\<close> has no defined
  behaviour in C++; the model makes it the value \<open>UndefinedBehavior\<close> instead of hiding
  it behind an unspecified \<open>xs ! i\<close>.
  A fallible operation returns \<open>error + 'a\<close>, with \<open>Inl\<close> the failure.
\<close>

datatype error =
    ExpectFailed string
  | AssertFailed string
  | RuntimeError string
  | OutOfRange
  | UndefinedBehavior

section \<open>Vectors, vertices and the functions declared outside the sources\<close>

text \<open>
  Scalars (\<^verbatim>\<open>float\<close>) are a type parameter \<open>'f\<close>; the definitions use only the
  operations the source applies to them, so nothing is assumed about rounding.
  \<^verbatim>\<open>glm::mat4\<close> is a type parameter \<open>'m\<close> with \<open>*\<close> and \<open>inverse\<close>
  (\<^verbatim>\<open>glm::inverse\<close>); \<^verbatim>\<open>Rect\<close> is \<open>'r\<close>, \<^verbatim>\<open>PackedVertList\<close>
  is \<open>'p\<close>, \<^verbatim>\<open>TextureInfo\<close> is \<open>'t\<close> and \<^verbatim>\<open>InputTimeS\<close> is \<open>'s\<close>.
\<close>

type_synonym 'f vec2 = "'f \<times> 'f"

datatype 'f vec4 = vec4 'f 'f 'f 'f

text \<open>\<^verbatim>\<open>glm::vec4\<close> multiplies and adds componentwise.\<close>

fun vec4_times :: "'f::times vec4 \<Rightarrow> 'f vec4 \<Rightarrow> 'f vec4" where
  "vec4_times (vec4 x1 y1 z1 w1) (vec4 x2 y2 z2 w2) = vec4 (x1 * x2) (y1 * y2) (z1 * z2) (w1 * w2)"

fun vec4_plus :: "'f::plus vec4 \<Rightarrow> 'f vec4 \<Rightarrow> 'f vec4" where
  "vec4_plus (vec4 x1 y1 z1 w1) (vec4 x2 y2 z2 w2) = vec4 (x1 + x2) (y1 + y2) (z1 + z2) (w1 + w2)"

text \<open>
  Modelled from the spec: \<^verbatim>\<open>Vertex\<close> (\<^verbatim>\<open>vertex.h\<close> is not among the sources) is a
  2-D position, an RGBA color and a texture coordinate.
\<close>

record 'f Vertex =
  position :: "'f vec2"
  color :: "'f vec4"
  texture_coords :: "'f vec2"

datatype VertFormat = x12y12 | x11a7r6y11g7b6 | x11a7r6y11g7b6u12v12

text \<open>
  \<^verbatim>\<open>ShaderType\<close>: the four enumerators \<^verbatim>\<open>VertexFormat\<close> names, and \<open>NoShader\<close>
  for a value its \<^verbatim>\<open>switch\<close> sends to \<^verbatim>\<open>default\<close>.
\<close>

datatype ShaderType =
  NoShader | ColoredVertShader | SingleColorShader | EraseShader | TexturedVertShader

text \<open>
  The functions the sources call and do not define are the fields of one record, passed
  to every operation that calls one of them:
  \<^item> \<open>Transform\<close>, \<open>TransformRect\<close>: \<^verbatim>\<open>geometry::Transform\<close> on a point and on a \<^verbatim>\<open>Rect\<close>;
  \<^item> \<open>SignedArea a b c\<close>: \<^verbatim>\<open>geometry::Triangle(a, b, c).SignedArea()\<close>;
  \<^item> \<open>Envelope\<close>: \<^verbatim>\<open>geometry::Envelope\<close> of a vertex sequence; \<open>Contains\<close>: \<^verbatim>\<open>Rect::Contains\<close>;
  \<^item> \<open>CalcTransformForFormat\<close>, \<open>PackVerts\<close>, \<open>size_packed\<close>, \<open>UnpackVertex\<close>,
    \<open>Clear_packed\<close>: the members of \<^verbatim>\<open>PackedVertList\<close>; \<open>UnpackVertex p i v\<close> is the
    vertex \<^verbatim>\<open>*v\<close> after \<^verbatim>\<open>p.UnpackVertex(i, v)\<close>;
  \<^item> \<open>Vertex0\<close>: the default-constructed \<^verbatim>\<open>Vertex()\<close>; \<open>Vertex_at p\<close>: \<^verbatim>\<open>Vertex(p)\<close>;
  \<^item> \<open>CreateAtPoint\<close>: \<^verbatim>\<open>Rect::CreateAtPoint\<close>; \<open>AssignOrJoinTo r b\<close>: the
    \<^verbatim>\<open>OptRect\<close> \<^verbatim>\<open>*b\<close> after \<^verbatim>\<open>util::AssignOrJoinTo(r, b)\<close>.
\<close>

record ('f, 'm, 'r, 'p) externals =
  Transform :: "'f vec2 \<Rightarrow> 'm \<Rightarrow> 'f vec2"
  TransformRect :: "'r \<Rightarrow> 'm \<Rightarrow> 'r"
  SignedArea :: "'f vec2 \<Rightarrow> 'f vec2 \<Rightarrow> 'f vec2 \<Rightarrow> 'f"
  Envelope :: "'f Vertex list \<Rightarrow> 'r"
  Contains :: "'r \<Rightarrow> 'r \<Rightarrow> bool"
  CalcTransformForFormat :: "'r \<Rightarrow> VertFormat \<Rightarrow> 'm"
  PackVerts :: "'f Vertex list \<Rightarrow> 'm \<Rightarrow> VertFormat \<Rightarrow> 'p"
  size_packed :: "'p \<Rightarrow> nat"
  UnpackVertex :: "'p \<Rightarrow> nat \<Rightarrow> 'f Vertex \<Rightarrow> 'f Vertex"
  Clear_packed :: "'p \<Rightarrow> 'p"
  Vertex0 :: "'f Vertex"
  Vertex_at :: "'f vec2 \<Rightarrow> 'f Vertex"
  CreateAtPoint :: "'f vec2 \<Rightarrow> 'r"
  AssignOrJoinTo :: "'r \<Rightarrow> 'r option \<Rightarrow> 'r option"

section \<open>mesh.cc: the triangle orientation helper\<close>

text \<open>\<^verbatim>\<open>kMax16\<close> is \<^verbatim>\<open>std::numeric_limits<uint16_t>::max()\<close>.\<close>

definition kMax16 :: nat where
  "kMax16 = 2 ^ 16 - 1"

text \<open>
  \<^verbatim>\<open>NormalizeTriangleHelper\<close> is a template over the index type (a word of any length)
  and the position getter, which fails where the source reads outside a vector. The loop
  counter \<^verbatim>\<open>i\<close> and \<^verbatim>\<open>n_triangles\<close> are \<^verbatim>\<open>int\<close> in the source and natural numbers
  here: the model is of index sequences shorter than \<open>2 ^ 31\<close>.
\<close>

function NormalizeTriangleLoop ::
  "('i \<Rightarrow> error + 'f vec2) \<Rightarrow> ('f vec2 \<Rightarrow> 'f vec2 \<Rightarrow> 'f vec2 \<Rightarrow> 'f::{ord,zero}) \<Rightarrow>
   nat \<Rightarrow> nat \<Rightarrow> 'i list \<Rightarrow> error + 'i list" where
  "NormalizeTriangleLoop position_getter area n_triangles i indices =
     (if i < n_triangles then
        (case position_getter (indices ! (3 * i)) of
           Inl e \<Rightarrow> Inl e
         | Inr a \<Rightarrow>
        (case position_getter (indices ! (3 * i + 1)) of
           Inl e \<Rightarrow> Inl e
         | Inr b \<Rightarrow>
        (case position_getter (indices ! (3 * i + 2)) of
           Inl e \<Rightarrow> Inl e
         | Inr c \<Rightarrow>
             NormalizeTriangleLoop position_getter area n_triangles (i + 1)
               (if area a b c < 0
                then indices[3 * i + 1 := indices ! (3 * i + 2), 3 * i + 2 := indices ! (3 * i + 1)]
                else indices))))
      else Inr indices)"
  by pat_completeness auto
termination
  by (relation "measure (\<lambda>(position_getter, area, n_triangles, i, indices). n_triangles - i)") auto

definition NormalizeTriangleHelper ::
  "('i \<Rightarrow> error + 'f vec2) \<Rightarrow> ('f vec2 \<Rightarrow> 'f vec2 \<Rightarrow> 'f vec2 \<Rightarrow> 'f::{ord,zero}) \<Rightarrow>
   'i list \<Rightarrow> error + 'i list" where
  "NormalizeTriangleHelper position_getter area indices =
     (if length indices mod 3 \<noteq> 0 then Inl (AssertFailed ''indices->size() % 3 == 0'')
      else NormalizeTriangleLoop position_getter area (length indices div 3) 0 indices)"

section \<open>mesh.cc: Mesh\<close>

text \<open>
  The members of \<^verbatim>\<open>Mesh\<close> that the operations below read or write. \<^verbatim>\<open>IndexType\<close>
  is \<^verbatim>\<open>uint32_t\<close>; the texture is an owned pointer that may be null.
\<close>

record ('f, 'm, 't) Mesh =
  verts :: "'f Vertex list"
  idx :: "32 word list"
  texture :: "'t option"
  object_matrix :: "'m"

text \<open>
  \<^verbatim>\<open>Append\<close> takes its argument by reference, and the reference may be to the receiver
  itself. Meshes therefore live in a store, from addresses to meshes; the receiver and
  the argument are addresses, and a reference to no mesh has no defined behaviour.
\<close>

type_synonym address = nat

type_synonym ('f, 'm, 't) meshes = "address \<Rightarrow> ('f, 'm, 't) Mesh option"

text \<open>
  The two loops of \<^verbatim>\<open>Mesh::Append\<close>, each a range-based \<^verbatim>\<open>for\<close> over a sequence of
  \<^verbatim>\<open>other\<close> that pushes onto the receiver's sequence. \<open>same\<close> says that \<^verbatim>\<open>other\<close> is
  the receiver: then the push grows the very vector the loop iterates over and
  invalidates the iterators the loop holds, so the first iteration already has no
  defined behaviour.
\<close>

fun Append_verts ::
  "('f, 'm, 'r, 'p) externals \<Rightarrow> 'm \<Rightarrow> bool \<Rightarrow> 'f Vertex list \<Rightarrow> 'f Vertex list \<Rightarrow>
   error + 'f Vertex list" where
  "Append_verts X t same [] vs = Inr vs"
| "Append_verts X t same (ov # rest) vs =
     (if same then Inl UndefinedBehavior
      else Append_verts X t same rest (vs @ [ov\<lparr>position := Transform X (position ov) t\<rparr>]))"

text \<open>
  \<^verbatim>\<open>i + startidx\<close> is computed in \<^verbatim>\<open>size_t\<close> and stored as \<^verbatim>\<open>uint32_t\<close>: the sum
  modulo \<open>2 ^ 32\<close>.
\<close>

fun Append_idx :: "nat \<Rightarrow> bool \<Rightarrow> 32 word list \<Rightarrow> 32 word list \<Rightarrow> error + 32 word list" where
  "Append_idx startidx same [] ix = Inr ix"
| "Append_idx startidx same (i # rest) ix =
     (if same then Inl UndefinedBehavior
      else Append_idx startidx same rest (ix @ [of_nat (unat i + startidx)]))"

text \<open>
  \<^verbatim>\<open>objects this\<close> is the receiver and \<^verbatim>\<open>objects other\<close> the argument; the result is
  the store with the receiver updated.
\<close>

definition Append ::
  "('f, 'm, 'r, 'p) externals \<Rightarrow> ('f, 'm::{times,inverse}, 't) meshes \<Rightarrow> address \<Rightarrow> address \<Rightarrow>
   error + ('f, 'm, 't) meshes" where
  "Append X objects this other =
     (case (objects this, objects other) of
        (Some receiver, Some argument) \<Rightarrow>
          if \<not> (verts argument = [] \<or> verts receiver = []
                 \<or> (idx argument = []) = (idx receiver = []))
          then Inl (AssertFailed
            ''other.verts.empty() || verts.empty() || other.idx.empty() == idx.empty()'')
          else
            let startidx = length (verts receiver);
                t = inverse (object_matrix receiver) * object_matrix argument
            in
              (case Append_verts X t (other = this) (verts argument) (verts receiver) of
                 Inl e \<Rightarrow> Inl e
               | Inr vs \<Rightarrow>
                   (case Append_idx startidx (other = this) (idx argument) (idx receiver) of
                      Inl e \<Rightarrow> Inl e
                    | Inr ix \<Rightarrow> Inr (objects(this \<mapsto> receiver\<lparr>verts := vs, idx := ix\<rparr>))))
      | _ \<Rightarrow> Inl UndefinedBehavior)"

function Deindex_loop ::
  "'f Vertex list \<Rightarrow> 32 word list \<Rightarrow> nat \<Rightarrow> 'f Vertex list \<Rightarrow> error + 'f Vertex list" where
  "Deindex_loop vs ix i new_verts =
     (if i < length ix then
        (if unat (ix ! i) < length vs
         then Deindex_loop vs ix (i + 1) (new_verts[i := vs ! unat (ix ! i)])
         else Inl UndefinedBehavior)
      else Inr new_verts)"
  by pat_completeness auto
termination
  by (relation "measure (\<lambda>(vs, ix, i, new_verts). length ix - i)") auto

definition Deindex ::
  "('f, 'm, 'r, 'p) externals \<Rightarrow> ('f, 'm, 't) Mesh \<Rightarrow> error + ('f, 'm, 't) Mesh" where
  "Deindex X this =
     (if idx this = [] then Inr this
      else
        (case Deindex_loop (verts this) (idx this) 0 (replicate (length (idx this)) (Vertex0 X)) of
           Inl e \<Rightarrow> Inl e
         | Inr new_verts \<Rightarrow> Inr (this\<lparr>idx := [], verts := new_verts\<rparr>)))"

text \<open>\<^verbatim>\<open>std::iota\<close> from 0 over a sequence resized to the vertex count.\<close>

definition GenIndex :: "('f, 'm, 't) Mesh \<Rightarrow> ('f, 'm, 't) Mesh" where
  "GenIndex this = this\<lparr>idx := map of_nat [0 ..< length (verts this)]\<rparr>"

definition Mesh_position_getter :: "('f, 'm, 't) Mesh \<Rightarrow> 32 word \<Rightarrow> error + 'f vec2" where
  "Mesh_position_getter this index =
     (if unat index < length (verts this) then Inr (position (verts this ! unat index))
      else Inl UndefinedBehavior)"

definition NormalizeTriangleOrientation ::
  "('f::{ord,zero}, 'm, 'r, 'p) externals \<Rightarrow> ('f, 'm, 't) Mesh \<Rightarrow> error + ('f, 'm, 't) Mesh" where
  "NormalizeTriangleOrientation X this =
     (case NormalizeTriangleHelper (Mesh_position_getter this) (SignedArea X) (idx this) of
        Inl e \<Rightarrow> Inl e
      | Inr indices \<Rightarrow> Inr (this\<lparr>idx := indices\<rparr>))"

text \<open>
  The signed area the helper computes in iteration \<open>k\<close> of
  \<^verbatim>\<open>NormalizeTriangleOrientation\<close>: that of the triangle of the vertices \<open>vs\<close> at the
  index triple \<open>k\<close> of \<open>ix\<close>.
\<close>

definition triangle_area ::
  "('f, 'm, 'r, 'p) externals \<Rightarrow> 'f Vertex list \<Rightarrow> 32 word list \<Rightarrow> nat \<Rightarrow> 'f" where
  "triangle_area X vs ix k =
     SignedArea X (position (vs ! unat (ix ! (3 * k)))) (position (vs ! unat (ix ! (3 * k + 1))))
       (position (vs ! unat (ix ! (3 * k + 2))))"

definition Has16BitIndex :: "('f, 'm, 't) Mesh \<Rightarrow> bool" where
  "Has16BitIndex this = (length (verts this) < kMax16)"

section \<open>mesh.cc: OptimizedMesh\<close>

text \<open>
  \<^verbatim>\<open>idx_\<close> (here \<open>o_idx\<close>) is an \<^verbatim>\<open>absl::variant\<close> of a 16-bit and a 32-bit index
  vector: exactly one alternative is populated. The members that share a name with a
  member of \<^verbatim>\<open>Mesh\<close> or \<^verbatim>\<open>Vertex\<close> carry the prefix \<open>o_\<close>.
\<close>

datatype IndexVariant = Idx16 "16 word list" | Idx32 "32 word list"

record ('f, 'm, 'r, 'p, 't) OptimizedMesh =
  type :: ShaderType
  o_verts :: "'p"
  o_texture :: "'t option"
  o_object_matrix :: "'m"
  mbr :: "'r"
  o_color :: "'f vec4"
  mul_color_modifier :: "'f vec4"
  add_color_modifier :: "'f vec4"
  o_idx :: IndexVariant

definition VertexFormat :: "ShaderType \<Rightarrow> error + VertFormat" where
  "VertexFormat shader_type =
     (case shader_type of
        ColoredVertShader \<Rightarrow> Inr x11a7r6y11g7b6
      | SingleColorShader \<Rightarrow> Inr x12y12
      | EraseShader \<Rightarrow> Inr x12y12
      | TexturedVertShader \<Rightarrow> Inr x11a7r6y11g7b6u12v12
      | NoShader \<Rightarrow> Inl (AssertFailed ''false''))"

definition IndexSize :: "('f, 'm, 'r, 'p, 't) OptimizedMesh \<Rightarrow> nat" where
  "IndexSize this = (case o_idx this of Idx32 v \<Rightarrow> length v | Idx16 v \<Rightarrow> length v)"

text \<open>\<^verbatim>\<open>std::vector::at\<close> throws outside the bounds.\<close>

definition IndexAt :: "('f, 'm, 'r, 'p, 't) OptimizedMesh \<Rightarrow> nat \<Rightarrow> error + 32 word" where
  "IndexAt this n =
     (case o_idx this of
        Idx32 v \<Rightarrow> if n < length v then Inr (v ! n) else Inl OutOfRange
      | Idx16 v \<Rightarrow> if n < length v then Inr (ucast (v ! n)) else Inl OutOfRange)"

definition Validate :: "('f, 'm, 'r, 'p, 't) OptimizedMesh \<Rightarrow> error + unit" where
  "Validate this =
     (if IndexSize this = 0 then Inr ()
      else if IndexSize this mod 3 \<noteq> 0 then Inl (AssertFailed ''IndexSize() % 3 == 0'')
      else Inr ())"

text \<open>
  The position getter of the constructor's two lambdas: unpack the vertex at \<open>index\<close>
  into a fresh \<^verbatim>\<open>Vertex\<close> and return its position. Unpacking past the end of the packed
  list is a read outside its storage.
\<close>

definition packed_position_getter ::
  "('f, 'm, 'r, 'p) externals \<Rightarrow> 'p \<Rightarrow> 'i::len word \<Rightarrow> error + 'f vec2" where
  "packed_position_getter X pv index =
     (if unat index < size_packed X pv
      then Inr (position (UnpackVertex X pv (unat index) (Vertex0 X)))
      else Inl UndefinedBehavior)"

text \<open>
  \<^verbatim>\<open>OptimizedMesh(ShaderType, const Mesh&, Rect envelope)\<close>. The member initializers
  run first: \<^verbatim>\<open>color(mesh.verts.begin()->color)\<close> reads the first vertex, which an
  empty mesh does not have. The copy into the 16-bit alternative converts each
  \<^verbatim>\<open>uint32_t\<close> to \<^verbatim>\<open>uint16_t\<close> (\<open>ucast\<close>).
\<close>

definition OptimizedMesh_build ::
  "('f::{ord,zero,one}, 'm::{times,inverse}, 'r, 'p) externals \<Rightarrow> ShaderType \<Rightarrow>
   ('f, 'm, 't) Mesh \<Rightarrow> 'r \<Rightarrow> error + ('f, 'm, 'r, 'p, 't) OptimizedMesh" where
  "OptimizedMesh_build X ty mesh envelope =
     (case verts mesh of
        [] \<Rightarrow> Inl UndefinedBehavior
      | v0 # _ \<Rightarrow>
          if \<not> (idx mesh \<noteq> [] \<and> length (idx mesh) mod 3 = 0)
          then Inl (ExpectFailed ''!mesh.idx.empty() && mesh.idx.size() % 3 == 0'')
          else if \<not> (verts mesh \<noteq> [])
          then Inl (ExpectFailed ''!mesh.verts.empty()'')
          else if \<not> Contains X envelope (Envelope X (verts mesh))
          then Inl (AssertFailed ''envelope.Contains(geometry::Envelope(mesh.verts))'')
          else
            (case VertexFormat ty of
               Inl e \<Rightarrow> Inl e
             | Inr fmt \<Rightarrow>
                 let m = CalcTransformForFormat X envelope fmt;
                     pv = PackVerts X (verts mesh) m fmt;
                     box = TransformRect X (Envelope X (verts mesh)) m
                 in
                   (case (if length (verts mesh) < kMax16
                          then map_sum id Idx16
                                 (NormalizeTriangleHelper (packed_position_getter X pv)
                                    (SignedArea X) (map ucast (idx mesh)))
                          else map_sum id Idx32
                                 (NormalizeTriangleHelper (packed_position_getter X pv)
                                    (SignedArea X) (idx mesh))) of
                      Inl e \<Rightarrow> Inl e
                    | Inr ix \<Rightarrow>
                        Inr \<lparr>type = ty,
                             o_verts = pv,
                             o_texture = texture mesh,
                             o_object_matrix = object_matrix mesh * inverse m,
                             mbr = box,
                             o_color = color v0,
                             mul_color_modifier = vec4 1 1 1 1,
                             add_color_modifier = vec4 0 0 0 0,
                             o_idx = ix\<rparr>)))"

text \<open>The constructor ends with \<^verbatim>\<open>Validate()\<close>.\<close>

definition OptimizedMesh_from ::
  "('f::{ord,zero,one}, 'm::{times,inverse}, 'r, 'p) externals \<Rightarrow> ShaderType \<Rightarrow>
   ('f, 'm, 't) Mesh \<Rightarrow> 'r \<Rightarrow> error + ('f, 'm, 'r, 'p, 't) OptimizedMesh" where
  "OptimizedMesh_from X ty mesh envelope =
     (case OptimizedMesh_build X ty mesh envelope of
        Inl e \<Rightarrow> Inl e
      | Inr this \<Rightarrow> (case Validate this of Inl e \<Rightarrow> Inl e | Inr _ \<Rightarrow> Inr this))"

text \<open>
  \<^verbatim>\<open>OptimizedMesh(ShaderType, const Mesh&)\<close> delegates with the mesh's own envelope.
\<close>

definition OptimizedMesh_of ::
  "('f::{ord,zero,one}, 'm::{times,inverse}, 'r, 'p) externals \<Rightarrow> ShaderType \<Rightarrow>
   ('f, 'm, 't) Mesh \<Rightarrow> error + ('f, 'm, 'r, 'p, 't) OptimizedMesh" where
  "OptimizedMesh_of X ty mesh = OptimizedMesh_from X ty mesh (Envelope X (verts mesh))"

definition ClearCpuMemoryVerts ::
  "('f, 'm, 'r, 'p) externals \<Rightarrow> ('f, 'm, 'r, 'p, 't) OptimizedMesh \<Rightarrow>
   ('f, 'm, 'r, 'p, 't) OptimizedMesh" where
  "ClearCpuMemoryVerts X this = this\<lparr>o_idx := Idx16 [], o_verts := Clear_packed X (o_verts this)\<rparr>"

text \<open>
  The body of the loop of \<^verbatim>\<open>ToMesh\<close> for the packed vertex \<open>i\<close>, from the value
  \<^verbatim>\<open>m.verts[i]\<close> has before it, and the loop, writing \<^verbatim>\<open>m.verts[i]\<close>.
\<close>

definition ToMesh_vertex ::
  "('f::{times,plus}, 'm, 'r, 'p) externals \<Rightarrow> ('f, 'm, 'r, 'p, 't) OptimizedMesh \<Rightarrow> nat \<Rightarrow>
   'f Vertex \<Rightarrow> 'f Vertex" where
  "ToMesh_vertex X this i m_verts_i =
     (let v = UnpackVertex X (o_verts this) i m_verts_i;
          v = (if type this = SingleColorShader then v\<lparr>color := o_color this\<rparr> else v)
      in v\<lparr>color :=
             vec4_plus (vec4_times (color v) (mul_color_modifier this)) (add_color_modifier this)\<rparr>)"

function ToMesh_loop ::
  "('f::{times,plus}, 'm, 'r, 'p) externals \<Rightarrow> ('f, 'm, 'r, 'p, 't) OptimizedMesh \<Rightarrow> nat \<Rightarrow>
   'f Vertex list \<Rightarrow> 'f Vertex list" where
  "ToMesh_loop X this i m_verts =
     (if i < size_packed X (o_verts this)
      then ToMesh_loop X this (i + 1) (m_verts[i := ToMesh_vertex X this i (m_verts ! i)])
      else m_verts)"
  by pat_completeness auto
termination
  by (relation "measure (\<lambda>(X, this, i, m_verts). size_packed X (o_verts this) - i)") auto

text \<open>
  \<^verbatim>\<open>Mesh m;\<close> starts with the default object matrix, which \<^verbatim>\<open>ToMesh\<close> overwrites,
  and with no texture.
\<close>

definition ToMesh ::
  "('f::{times,plus}, 'm, 'r, 'p) externals \<Rightarrow> ('f, 'm, 'r, 'p, 't) OptimizedMesh \<Rightarrow>
   ('f, 'm, 't) Mesh" where
  "ToMesh X this =
     \<lparr>verts = ToMesh_loop X this 0 (replicate (size_packed X (o_verts this)) (Vertex0 X)),
      idx = (case o_idx this of Idx32 v \<Rightarrow> v | Idx16 v \<Rightarrow> map ucast v),
      texture = (case o_texture this of Some tex \<Rightarrow> Some tex | None \<Rightarrow> None),
      object_matrix = o_object_matrix this\<rparr>"

definition Index16 :: "('f, 'm, 'r, 'p, 't) OptimizedMesh \<Rightarrow> error + 16 word list" where
  "Index16 this =
     (case o_idx this of
        Idx16 v \<Rightarrow> Inr v
      | Idx32 v \<Rightarrow> Inl (RuntimeError ''Cannot represent this optimized mesh's index in 16 bits''))"

section \<open>fat_line.h: FatLine::AppendVertex\<close>







section \<open>The operations of the builder that append vertices\<close>







section \<open>An instance of the external functions\<close>

text \<open>
  An instance on which the operations can be run: scalars are rationals, a matrix is a
  uniform scaling about the origin (its factor), a rectangle is its two corners, and a
  packed list holds the vertices with their positions transformed, without rounding.
\<close>

definition exact_externals ::
  "(rat, rat, rat vec2 \<times> rat vec2, rat Vertex list) externals" where
  "exact_externals =
     \<lparr>Transform = (\<lambda>p m. (fst p * m, snd p * m)),
      TransformRect = (\<lambda>r m. ((fst (fst r) * m, snd (fst r) * m), (fst (snd r) * m, snd (snd r) * m))),
      SignedArea = (\<lambda>a b c.
        ((fst b - fst a) * (snd c - snd a) - (snd b - snd a) * (fst c - fst a)) / 2),
      Envelope = (\<lambda>vs.
        ((Min (set (map (\<lambda>v. fst (position v)) vs)), Min (set (map (\<lambda>v. snd (position v)) vs))),
         (Max (set (map (\<lambda>v. fst (position v)) vs)), Max (set (map (\<lambda>v. snd (position v)) vs))))),
      Contains = (\<lambda>r q.
        fst (fst r) \<le> fst (fst q) \<and> snd (fst r) \<le> snd (fst q) \<and>
        fst (snd q) \<le> fst (snd r) \<and> snd (snd q) \<le> snd (snd r)),
      CalcTransformForFormat = (\<lambda>r fmt. case fmt of x12y12 \<Rightarrow> 4 | _ \<Rightarrow> 2),
      PackVerts = (\<lambda>vs m fmt.
        map (\<lambda>v. v\<lparr>position := (fst (position v) * m, snd (position v) * m)\<rparr>) vs),
      size_packed = length,
      UnpackVertex = (\<lambda>p i v. p ! i),
      Clear_packed = (\<lambda>p. []),
      Vertex0 = \<lparr>position = (0, 0), color = vec4 0 0 0 0, texture_coords = (0, 0)\<rparr>,
      Vertex_at = (\<lambda>p. \<lparr>position = p, color = vec4 0 0 0 0, texture_coords = (0, 0)\<rparr>),
      CreateAtPoint = (\<lambda>p. (p, p)),
      AssignOrJoinTo = (\<lambda>r b. case b of
          None \<Rightarrow> Some r
        | Some q \<Rightarrow>
            Some ((min (fst (fst r)) (fst (fst q)), min (snd (fst r)) (snd (fst q))),
                  (max (fst (snd r)) (fst (snd q)), max (snd (snd r)) (snd (snd q)))))\<rparr>"

text \<open>
  Meshes to run the operations on. \<open>quad_mesh\<close> is a square of two triangles, the
  second wound the other way; \<open>quad_packed\<close> is what the constructor makes of it for
  \<^verbatim>\<open>ColoredVertShader\<close>. \<open>wide_mesh\<close> is one triangle among 65535 vertices.
\<close>

definition quad_mesh :: "(rat, rat, nat) Mesh" where
  "quad_mesh =
     \<lparr>verts = [\<lparr>position = (0, 0), color = vec4 0 0 0 1, texture_coords = (0, 0)\<rparr>,
               \<lparr>position = (4, 0), color = vec4 0 0 1 1, texture_coords = (0, 0)\<rparr>,
               \<lparr>position = (0, 4), color = vec4 0 1 0 1, texture_coords = (0, 0)\<rparr>,
               \<lparr>position = (4, 4), color = vec4 1 0 0 1, texture_coords = (0, 0)\<rparr>],
      idx = [0, 1, 2, 1, 2, 3], texture = Some 7, object_matrix = 3\<rparr>"

definition quad_packed ::
  "(rat, rat, rat vec2 \<times> rat vec2, rat Vertex list, nat) OptimizedMesh" where
  "quad_packed =
     \<lparr>type = ColoredVertShader,
      o_verts = [\<lparr>position = (0, 0), color = vec4 0 0 0 1, texture_coords = (0, 0)\<rparr>,
                 \<lparr>position = (8, 0), color = vec4 0 0 1 1, texture_coords = (0, 0)\<rparr>,
                 \<lparr>position = (0, 8), color = vec4 0 1 0 1, texture_coords = (0, 0)\<rparr>,
                 \<lparr>position = (8, 8), color = vec4 1 0 0 1, texture_coords = (0, 0)\<rparr>],
      o_texture = Some 7,
      o_object_matrix = 3 / 2,
      mbr = ((0, 0), (8, 8)),
      o_color = vec4 0 0 0 1,
      mul_color_modifier = vec4 1 1 1 1,
      add_color_modifier = vec4 0 0 0 0,
      o_idx = Idx16 [0, 1, 2, 1, 3, 2]\<rparr>"

definition wide_mesh :: "(rat, rat, nat) Mesh" where
  "wide_mesh =
     \<lparr>verts = [\<lparr>position = (0, 0), color = vec4 0 0 0 1, texture_coords = (0, 0)\<rparr>,
               \<lparr>position = (4, 0), color = vec4 0 0 0 1, texture_coords = (0, 0)\<rparr>,
               \<lparr>position = (0, 4), color = vec4 0 0 0 1, texture_coords = (0, 0)\<rparr>]
              @ replicate 65532 \<lparr>position = (4, 4), color = vec4 0 0 0 1, texture_coords = (0, 0)\<rparr>,
      idx = [0, 1, 2], texture = None, object_matrix = 1\<rparr>"





section \<open>Lemmas about the loops\<close>

declare NormalizeTriangleLoop.simps [simp del]
declare Deindex_loop.simps [simp del]
declare ToMesh_loop.simps [simp del]

subsection \<open>Index conversions\<close>

lemma unat16_ucast32: "unat (ucast (w :: 16 word) :: 32 word) = unat w"
proof -
  have "unat w < 2 ^ 16"
    using unsigned_less [of w] by simp
  then have small: "unat w < 2 ^ 32"
    by simp
  have "unat (ucast w :: 32 word) = take_bit LENGTH(32) (unat w)"
    by (rule unsigned_ucast_eq)
  then show ?thesis
    using small by (simp add: take_bit_nat_eq_self)
qed

lemma unat_ucast16: "unat (i :: 32 word) < 2 ^ 16 \<Longrightarrow> unat (ucast i :: 16 word) = unat i"
proof -
  assume small: "unat i < 2 ^ 16"
  have "unat (ucast i :: 16 word) = take_bit LENGTH(16) (unat i)"
    by (rule unsigned_ucast_eq)
  then show ?thesis
    using small by (simp add: take_bit_nat_eq_self)
qed

lemma ucast32_ucast16: "unat (i :: 32 word) < 2 ^ 16 \<Longrightarrow> (ucast (ucast i :: 16 word) :: 32 word) = i"
  by (rule word_unat_eq_iff [THEN iffD2]) (simp only: unat16_ucast32 unat_ucast16)

lemma unat_offset:
  "unat (i :: 32 word) + n < 2 ^ 32 \<Longrightarrow> unat (i + of_nat n) = unat i + n"
  by (simp add: unat_word_ariths unat_of_nat)

subsection \<open>The loops of Append, Deindex and ToMesh\<close>

lemma Append_verts_eq:
  "Append_verts X t False ovs vs =
     Inr (vs @ map (\<lambda>ov. ov\<lparr>position := Transform X (position ov) t\<rparr>) ovs)"
  by (induction ovs arbitrary: vs) simp_all

lemma Append_verts_same:
  "Append_verts X t True ovs vs = (if ovs = [] then Inr vs else Inl UndefinedBehavior)"
  by (cases ovs) simp_all

lemma Append_idx_eq:
  "Append_idx startidx False js ix = Inr (ix @ map (\<lambda>i. i + of_nat startidx) js)"
  by (induction js arbitrary: ix) simp_all

lemma Append_idx_same:
  "Append_idx startidx True js ix = (if js = [] then Inr ix else Inl UndefinedBehavior)"
  by (cases js) simp_all

lemma Deindex_loop_eq:
  assumes "\<forall>j\<in>set ix. unat j < length vs" and "length new_verts = length ix" and "i \<le> length ix"
  shows "Deindex_loop vs ix i new_verts = Inr (take i new_verts @ map (\<lambda>j. vs ! unat j) (drop i ix))"
  using assms
proof (induction vs ix i new_verts rule: Deindex_loop.induct)
  case (1 vs ix i new_verts)
  show ?case
  proof (cases "i < length ix")
    case True
    then have inr: "unat (ix ! i) < length vs"
      using "1.prems"(1) by simp
    have step: "Deindex_loop vs ix (i + 1) (new_verts[i := vs ! unat (ix ! i)]) =
        Inr (take (i + 1) (new_verts[i := vs ! unat (ix ! i)]) @ map (\<lambda>j. vs ! unat j) (drop (i + 1) ix))"
      using "1.IH" [OF True inr] "1.prems" True by simp
    have "take (i + 1) (new_verts[i := vs ! unat (ix ! i)]) = take i new_verts @ [vs ! unat (ix ! i)]"
      using True "1.prems"(2) by (simp add: take_Suc_conv_app_nth)
    moreover have "drop i ix = ix ! i # drop (i + 1) ix"
      using True by (simp add: Cons_nth_drop_Suc)
    ultimately show ?thesis
      using True inr step by (subst Deindex_loop.simps) simp
  next
    case False
    then show ?thesis
      using "1.prems" by (subst Deindex_loop.simps) simp
  qed
qed

lemma Deindex_loop_out_of_range:
  assumes "\<not> (\<forall>j\<in>set (drop i ix). unat j < length vs)"
  shows "Deindex_loop vs ix i new_verts = Inl UndefinedBehavior"
  using assms
proof (induction vs ix i new_verts rule: Deindex_loop.induct)
  case (1 vs ix i new_verts)
  show ?case
  proof (cases "i < length ix")
    case True
    then have d: "drop i ix = ix ! i # drop (i + 1) ix"
      by (simp add: Cons_nth_drop_Suc)
    show ?thesis
    proof (cases "unat (ix ! i) < length vs")
      case inr: True
      then have "\<not> (\<forall>j\<in>set (drop (i + 1) ix). unat j < length vs)"
        using "1.prems" d by simp
      then show ?thesis
        using "1.IH" [OF True inr] True inr by (subst Deindex_loop.simps) simp
    next
      case False
      then show ?thesis using True by (subst Deindex_loop.simps) simp
    qed
  next
    case False
    then show ?thesis using "1.prems" by simp
  qed
qed

lemma ToMesh_loop_eq:
  assumes "length m_verts = size_packed X (o_verts this)" and "i \<le> size_packed X (o_verts this)"
  shows "ToMesh_loop X this i m_verts =
     take i m_verts @
     map (\<lambda>j. ToMesh_vertex X this j (m_verts ! j)) [i ..< size_packed X (o_verts this)]"
  using assms
proof (induction X this i m_verts rule: ToMesh_loop.induct)
  case (1 X this i m_verts)
  let ?n = "size_packed X (o_verts this)"
  show ?case
  proof (cases "i < ?n")
    case True
    let ?v = "ToMesh_vertex X this i (m_verts ! i)"
    have unfold: "ToMesh_loop X this i m_verts = ToMesh_loop X this (i + 1) (m_verts[i := ?v])"
      using True by (subst ToMesh_loop.simps) simp
    have ih: "ToMesh_loop X this (i + 1) (m_verts[i := ?v]) =
       take (i + 1) (m_verts[i := ?v]) @
       map (\<lambda>j. ToMesh_vertex X this j (m_verts[i := ?v] ! j)) [i + 1 ..< ?n]"
      using "1.IH" [OF True] "1.prems" True by simp
    have t: "take (i + 1) (m_verts[i := ?v]) = take i m_verts @ [?v]"
      using True "1.prems"(1) by (simp add: take_Suc_conv_app_nth)
    have m: "map (\<lambda>j. ToMesh_vertex X this j (m_verts[i := ?v] ! j)) [i + 1 ..< ?n] =
             map (\<lambda>j. ToMesh_vertex X this j (m_verts ! j)) [i + 1 ..< ?n]"
      by (rule map_cong) simp_all
    have u: "[i ..< ?n] = i # [i + 1 ..< ?n]"
      using True by (simp add: upt_conv_Cons)
    show ?thesis
      unfolding unfold ih t m u by simp
  next
    case False
    then show ?thesis
      using "1.prems" by (subst ToMesh_loop.simps) simp
  qed
qed

subsection \<open>The orientation loop\<close>

lemma NormalizeTriangleLoop_Inr:
  assumes "NormalizeTriangleLoop pg area n i xs = Inr ys" and "3 * n \<le> length xs"
  shows "length ys = length xs
     \<and> set ys = set xs
     \<and> (\<forall>j. j < 3 * i \<or> 3 * n \<le> j \<longrightarrow> ys ! j = xs ! j)
     \<and> (\<forall>k. i \<le> k \<and> k < n \<longrightarrow>
          (\<exists>a b c. pg (xs ! (3 * k)) = Inr a \<and> pg (xs ! (3 * k + 1)) = Inr b
             \<and> pg (xs ! (3 * k + 2)) = Inr c
             \<and> ys ! (3 * k) = xs ! (3 * k)
             \<and> ys ! (3 * k + 1) = (if area a b c < 0 then xs ! (3 * k + 2) else xs ! (3 * k + 1))
             \<and> ys ! (3 * k + 2) = (if area a b c < 0 then xs ! (3 * k + 1) else xs ! (3 * k + 2))))"
  using assms
proof (induction pg area n i xs rule: NormalizeTriangleLoop.induct)
  case (1 pg area n i xs)
  show ?case
  proof (cases "i < n")
    case False
    then have "ys = xs"
      using "1.prems"(1) by (subst (asm) NormalizeTriangleLoop.simps) simp
    moreover have "\<not> (i \<le> k \<and> k < n)" for k
      using False by simp
    ultimately show ?thesis
      by blast
  next
    case True
    from True "1.prems"(1) obtain a b c where
      a: "pg (xs ! (3 * i)) = Inr a" and b: "pg (xs ! (3 * i + 1)) = Inr b"
      and c: "pg (xs ! (3 * i + 2)) = Inr c"
      by (subst (asm) NormalizeTriangleLoop.simps) (simp split: sum.splits)
    define xs' where "xs' =
      (if area a b c < 0
       then xs[3 * i + 1 := xs ! (3 * i + 2), 3 * i + 2 := xs ! (3 * i + 1)] else xs)"
    have run: "NormalizeTriangleLoop pg area n (i + 1) xs' = Inr ys"
      using True "1.prems"(1) a b c
      by (subst (asm) NormalizeTriangleLoop.simps) (simp add: xs'_def)
    have bound: "3 * i + 2 < length xs"
      using True "1.prems"(2) by simp
    have len: "length xs' = length xs"
      by (simp add: xs'_def)
    have same: "xs' ! j = xs ! j" if "j \<noteq> 3 * i + 1" and "j \<noteq> 3 * i + 2" for j
      using that by (simp add: xs'_def)
    have at1: "xs' ! (3 * i + 1) = (if area a b c < 0 then xs ! (3 * i + 2) else xs ! (3 * i + 1))"
      using bound by (simp add: xs'_def nth_list_update)
    have at2: "xs' ! (3 * i + 2) = (if area a b c < 0 then xs ! (3 * i + 1) else xs ! (3 * i + 2))"
      using bound by (simp add: xs'_def nth_list_update)
    have ih: "length ys = length xs'
     \<and> set ys = set xs'
     \<and> (\<forall>j. j < 3 * (i + 1) \<or> 3 * n \<le> j \<longrightarrow> ys ! j = xs' ! j)
     \<and> (\<forall>k. i + 1 \<le> k \<and> k < n \<longrightarrow>
          (\<exists>a b c. pg (xs' ! (3 * k)) = Inr a \<and> pg (xs' ! (3 * k + 1)) = Inr b
             \<and> pg (xs' ! (3 * k + 2)) = Inr c
             \<and> ys ! (3 * k) = xs' ! (3 * k)
             \<and> ys ! (3 * k + 1) = (if area a b c < 0 then xs' ! (3 * k + 2) else xs' ! (3 * k + 1))
             \<and> ys ! (3 * k + 2) = (if area a b c < 0 then xs' ! (3 * k + 1) else xs' ! (3 * k + 2))))"
      by (rule "1.IH" [OF True a b c, folded xs'_def, OF run]) (simp add: len "1.prems"(2))
    have p1: "length ys = length xs"
      using ih len by simp
    have "set xs' = set xs"
      using bound by (simp add: xs'_def)
    then have p0: "set ys = set xs"
      using ih by simp
    have p2: "ys ! j = xs ! j" if "j < 3 * i \<or> 3 * n \<le> j" for j
    proof -
      have "ys ! j = xs' ! j"
        using ih that by auto
      moreover have "j \<noteq> 3 * i + 1" and "j \<noteq> 3 * i + 2"
        using that True by auto
      ultimately show ?thesis
        using same by simp
    qed
    have p3: "\<exists>a b c. pg (xs ! (3 * k)) = Inr a \<and> pg (xs ! (3 * k + 1)) = Inr b
             \<and> pg (xs ! (3 * k + 2)) = Inr c
             \<and> ys ! (3 * k) = xs ! (3 * k)
             \<and> ys ! (3 * k + 1) = (if area a b c < 0 then xs ! (3 * k + 2) else xs ! (3 * k + 1))
             \<and> ys ! (3 * k + 2) = (if area a b c < 0 then xs ! (3 * k + 1) else xs ! (3 * k + 2))"
      if k: "i \<le> k \<and> k < n" for k
    proof (cases "k = i")
      case True
      have "ys ! (3 * i) = xs' ! (3 * i)" and "ys ! (3 * i + 1) = xs' ! (3 * i + 1)"
        and "ys ! (3 * i + 2) = xs' ! (3 * i + 2)"
        using ih by auto
      moreover have "xs' ! (3 * i) = xs ! (3 * i)"
        using same by simp
      ultimately have "ys ! (3 * i) = xs ! (3 * i)"
        and "ys ! (3 * i + 1) = (if area a b c < 0 then xs ! (3 * i + 2) else xs ! (3 * i + 1))"
        and "ys ! (3 * i + 2) = (if area a b c < 0 then xs ! (3 * i + 1) else xs ! (3 * i + 2))"
        using at1 at2 by (simp_all only:)
      then show ?thesis
        unfolding True using a b c by blast
    next
      case False
      then have later: "i + 1 \<le> k \<and> k < n"
        using k by simp
      have eqs: "xs' ! (3 * k) = xs ! (3 * k)" "xs' ! (3 * k + 1) = xs ! (3 * k + 1)"
        "xs' ! (3 * k + 2) = xs ! (3 * k + 2)"
        using later by (simp_all add: same)
      from ih later have "\<exists>a b c. pg (xs' ! (3 * k)) = Inr a \<and> pg (xs' ! (3 * k + 1)) = Inr b
             \<and> pg (xs' ! (3 * k + 2)) = Inr c
             \<and> ys ! (3 * k) = xs' ! (3 * k)
             \<and> ys ! (3 * k + 1) = (if area a b c < 0 then xs' ! (3 * k + 2) else xs' ! (3 * k + 1))
             \<and> ys ! (3 * k + 2) = (if area a b c < 0 then xs' ! (3 * k + 1) else xs' ! (3 * k + 2))"
        by blast
      then show ?thesis
        unfolding eqs .
    qed
    show ?thesis
      using p0 p1 p2 p3 by blast
  qed
qed

lemma NormalizeTriangleLoop_succeeds:
  assumes "\<forall>x\<in>set xs. \<exists>p. pg x = Inr p" and "3 * n \<le> length xs"
  shows "\<exists>ys. NormalizeTriangleLoop pg area n i xs = Inr ys"
  using assms
proof (induction pg area n i xs rule: NormalizeTriangleLoop.induct)
  case (1 pg area n i xs)
  show ?case
  proof (cases "i < n")
    case False
    then show ?thesis
      by (subst NormalizeTriangleLoop.simps) simp
  next
    case True
    then have bound: "3 * i + 2 < length xs"
      using "1.prems"(2) by simp
    then have "xs ! (3 * i) \<in> set xs" and "xs ! (3 * i + 1) \<in> set xs" and "xs ! (3 * i + 2) \<in> set xs"
      by simp_all
    then obtain a b c where
      a: "pg (xs ! (3 * i)) = Inr a" and b: "pg (xs ! (3 * i + 1)) = Inr b"
      and c: "pg (xs ! (3 * i + 2)) = Inr c"
      using "1.prems"(1) by blast
    define xs' where "xs' =
      (if area a b c < 0
       then xs[3 * i + 1 := xs ! (3 * i + 2), 3 * i + 2 := xs ! (3 * i + 1)] else xs)"
    have "set xs' = set xs"
      using bound by (simp add: xs'_def)
    moreover have "length xs' = length xs"
      by (simp add: xs'_def)
    ultimately have "\<exists>ys. NormalizeTriangleLoop pg area n (i + 1) xs' = Inr ys"
      using "1.prems" by (intro "1.IH" [OF True a b c, folded xs'_def]) simp_all
    then show ?thesis
      using True a b c by (subst NormalizeTriangleLoop.simps) (simp add: xs'_def)
  qed
qed

lemma NormalizeTriangleHelper_Inr:
  assumes "NormalizeTriangleHelper pg area xs = Inr ys"
  shows "length xs mod 3 = 0 \<and> length ys = length xs \<and> set ys = set xs
     \<and> (\<forall>k. 3 * k + 2 < length xs \<longrightarrow>
          (\<exists>a b c. pg (xs ! (3 * k)) = Inr a \<and> pg (xs ! (3 * k + 1)) = Inr b
             \<and> pg (xs ! (3 * k + 2)) = Inr c
             \<and> ys ! (3 * k) = xs ! (3 * k)
             \<and> ys ! (3 * k + 1) = (if area a b c < 0 then xs ! (3 * k + 2) else xs ! (3 * k + 1))
             \<and> ys ! (3 * k + 2) = (if area a b c < 0 then xs ! (3 * k + 1) else xs ! (3 * k + 2))))"
proof -
  have m: "length xs mod 3 = 0"
    using assms by (simp add: NormalizeTriangleHelper_def split: if_splits)
  then have run: "NormalizeTriangleLoop pg area (length xs div 3) 0 xs = Inr ys"
    using assms by (simp add: NormalizeTriangleHelper_def)
  have le: "3 * (length xs div 3) \<le> length xs"
    by simp
  have k: "0 \<le> k \<and> k < length xs div 3" if "3 * k + 2 < length xs" for k
    using that by simp
  note loop = NormalizeTriangleLoop_Inr [OF run le]
  show ?thesis
  proof (intro conjI allI impI)
    show "length xs mod 3 = 0"
      by (rule m)
    show "length ys = length xs"
      by (rule loop [THEN conjunct1])
    show "set ys = set xs"
      by (rule loop [THEN conjunct2, THEN conjunct1])
  next
    fix k
    assume "3 * k + 2 < length xs"
    then have "0 \<le> k \<and> k < length xs div 3"
      by (rule k)
    then show "\<exists>a b c. pg (xs ! (3 * k)) = Inr a \<and> pg (xs ! (3 * k + 1)) = Inr b
             \<and> pg (xs ! (3 * k + 2)) = Inr c
             \<and> ys ! (3 * k) = xs ! (3 * k)
             \<and> ys ! (3 * k + 1) = (if area a b c < 0 then xs ! (3 * k + 2) else xs ! (3 * k + 1))
             \<and> ys ! (3 * k + 2) = (if area a b c < 0 then xs ! (3 * k + 1) else xs ! (3 * k + 2))"
      by (rule loop [THEN conjunct2, THEN conjunct2, THEN conjunct2, rule_format])
  qed
qed

lemma NormalizeTriangleHelper_succeeds:
  assumes "length xs mod 3 = 0" and "\<forall>x\<in>set xs. \<exists>p. pg x = Inr p"
  shows "\<exists>ys. NormalizeTriangleHelper pg area xs = Inr ys"
  using assms NormalizeTriangleLoop_succeeds [of xs pg "length xs div 3" area 0]
  by (simp add: NormalizeTriangleHelper_def)

lemma NormalizeTriangleLoop_Inl:
  assumes "NormalizeTriangleLoop pg area n i xs = Inl e"
  shows "\<exists>x. pg x = Inl e"
  using assms
proof (induction pg area n i xs rule: NormalizeTriangleLoop.induct)
  case (1 pg area n i xs)
  show ?case
  proof (cases "i < n")
    case False
    then show ?thesis
      using "1.prems" by (subst (asm) NormalizeTriangleLoop.simps) simp
  next
    case True
    show ?thesis
    proof (cases "\<exists>a b c. pg (xs ! (3 * i)) = Inr a \<and> pg (xs ! (3 * i + 1)) = Inr b
        \<and> pg (xs ! (3 * i + 2)) = Inr c")
      case True
      then obtain a b c where
        a: "pg (xs ! (3 * i)) = Inr a" and b: "pg (xs ! (3 * i + 1)) = Inr b"
        and c: "pg (xs ! (3 * i + 2)) = Inr c"
        by blast
      have "NormalizeTriangleLoop pg area n (i + 1)
          (if area a b c < 0
           then xs[3 * i + 1 := xs ! (3 * i + 2), 3 * i + 2 := xs ! (3 * i + 1)] else xs) = Inl e"
        using \<open>i < n\<close> "1.prems" a b c by (subst (asm) NormalizeTriangleLoop.simps) simp
      then show ?thesis
        by (rule "1.IH" [OF \<open>i < n\<close> a b c])
    next
      case False
      then show ?thesis
        using \<open>i < n\<close> "1.prems"
        by (subst (asm) NormalizeTriangleLoop.simps) (auto split: sum.splits)
    qed
  qed
qed

lemma NormalizeTriangleHelper_triples:
  assumes "NormalizeTriangleHelper pg area xs = Inr ys" and "3 * k + 2 < length xs"
  shows "ys ! (3 * k) = xs ! (3 * k)
     \<and> (ys ! (3 * k + 1) = xs ! (3 * k + 1) \<and> ys ! (3 * k + 2) = xs ! (3 * k + 2)
        \<or> ys ! (3 * k + 1) = xs ! (3 * k + 2) \<and> ys ! (3 * k + 2) = xs ! (3 * k + 1))"
proof -
  from NormalizeTriangleHelper_Inr [OF assms(1), THEN conjunct2, THEN conjunct2, THEN conjunct2,
    rule_format, OF assms(2)]
  obtain a b c where
    "ys ! (3 * k) = xs ! (3 * k)"
    "ys ! (3 * k + 1) = (if area a b c < 0 then xs ! (3 * k + 2) else xs ! (3 * k + 1))"
    "ys ! (3 * k + 2) = (if area a b c < 0 then xs ! (3 * k + 1) else xs ! (3 * k + 2))"
    by (elim exE conjE)
  then show ?thesis
    by (cases "area a b c < 0") simp_all
qed

lemma triples_eqI:
  assumes "length ys = length xs" and "length xs mod 3 = 0"
      and "\<And>k. 3 * k + 2 < length xs \<Longrightarrow>
             ys ! (3 * k) = xs ! (3 * k) \<and> ys ! (3 * k + 1) = xs ! (3 * k + 1)
             \<and> ys ! (3 * k + 2) = xs ! (3 * k + 2)"
  shows "ys = xs"
proof (rule nth_equalityI)
  show "length ys = length xs"
    by (rule assms(1))
next
  fix j
  assume "j < length ys"
  then have j: "j < length xs"
    using assms(1) by simp
  define k where "k = j div 3"
  have bound: "3 * k + 2 < length xs"
    using j assms(2) unfolding k_def by presburger
  have "j = 3 * k \<or> j = 3 * k + 1 \<or> j = 3 * k + 2"
    unfolding k_def by presburger
  then show "ys ! j = xs ! j"
    using assms(3) [OF bound] by auto
qed

lemma NormalizeTriangleOrientation_char:
  assumes "length (idx this) mod 3 = 0"
      and "\<forall>i\<in>set (idx this). unat i < length (verts this)"
  shows "\<exists>ys. NormalizeTriangleOrientation X this = Inr (this\<lparr>idx := ys\<rparr>)
     \<and> length ys = length (idx this) \<and> set ys = set (idx this)
     \<and> (\<forall>k. 3 * k + 2 < length (idx this) \<longrightarrow>
          ys ! (3 * k) = idx this ! (3 * k)
        \<and> ys ! (3 * k + 1) =
            (if triangle_area X (verts this) (idx this) k < 0
             then idx this ! (3 * k + 2) else idx this ! (3 * k + 1))
        \<and> ys ! (3 * k + 2) =
            (if triangle_area X (verts this) (idx this) k < 0
             then idx this ! (3 * k + 1) else idx this ! (3 * k + 2)))"
proof -
  let ?pg = "Mesh_position_getter this"
  have pg: "?pg x = Inr (position (verts this ! unat x))" if "x \<in> set (idx this)" for x
    using assms(2) that by (simp add: Mesh_position_getter_def)
  then have "\<forall>x\<in>set (idx this). \<exists>p. ?pg x = Inr p"
    by blast
  then obtain ys where run: "NormalizeTriangleHelper ?pg (SignedArea X) (idx this) = Inr ys"
    using NormalizeTriangleHelper_succeeds [OF assms(1)] by blast
  note char = NormalizeTriangleHelper_Inr [OF run]
  have res: "NormalizeTriangleOrientation X this = Inr (this\<lparr>idx := ys\<rparr>)"
    by (simp add: NormalizeTriangleOrientation_def run)
  have tri: "ys ! (3 * k) = idx this ! (3 * k)
        \<and> ys ! (3 * k + 1) =
            (if triangle_area X (verts this) (idx this) k < 0
             then idx this ! (3 * k + 2) else idx this ! (3 * k + 1))
        \<and> ys ! (3 * k + 2) =
            (if triangle_area X (verts this) (idx this) k < 0
             then idx this ! (3 * k + 1) else idx this ! (3 * k + 2))"
    if k: "3 * k + 2 < length (idx this)" for k
  proof -
    from char [THEN conjunct2, THEN conjunct2, THEN conjunct2, rule_format, OF k]
    obtain a b c where
      a: "?pg (idx this ! (3 * k)) = Inr a" and b: "?pg (idx this ! (3 * k + 1)) = Inr b"
      and c: "?pg (idx this ! (3 * k + 2)) = Inr c"
      and ys: "ys ! (3 * k) = idx this ! (3 * k)"
        "ys ! (3 * k + 1) = (if SignedArea X a b c < 0 then idx this ! (3 * k + 2) else idx this ! (3 * k + 1))"
        "ys ! (3 * k + 2) = (if SignedArea X a b c < 0 then idx this ! (3 * k + 1) else idx this ! (3 * k + 2))"
      by (elim exE conjE)
    have "idx this ! (3 * k) \<in> set (idx this)" and "idx this ! (3 * k + 1) \<in> set (idx this)"
      and "idx this ! (3 * k + 2) \<in> set (idx this)"
      using k by simp_all
    then have "a = position (verts this ! unat (idx this ! (3 * k)))"
      and "b = position (verts this ! unat (idx this ! (3 * k + 1)))"
      and "c = position (verts this ! unat (idx this ! (3 * k + 2)))"
      using a b c pg by simp_all
    then have "SignedArea X a b c = triangle_area X (verts this) (idx this) k"
      by (simp only: triangle_area_def)
    then show ?thesis
      using ys by simp
  qed
  show ?thesis
  proof (intro exI [of _ ys] conjI)
    show "NormalizeTriangleOrientation X this = Inr (this\<lparr>idx := ys\<rparr>)"
      by (rule res)
    show "length ys = length (idx this)"
      by (rule char [THEN conjunct2, THEN conjunct1])
    show "set ys = set (idx this)"
      by (rule char [THEN conjunct2, THEN conjunct2, THEN conjunct1])
    show "\<forall>k. 3 * k + 2 < length (idx this) \<longrightarrow>
          ys ! (3 * k) = idx this ! (3 * k)
        \<and> ys ! (3 * k + 1) =
            (if triangle_area X (verts this) (idx this) k < 0
             then idx this ! (3 * k + 2) else idx this ! (3 * k + 1))
        \<and> ys ! (3 * k + 2) =
            (if triangle_area X (verts this) (idx this) k < 0
             then idx this ! (3 * k + 1) else idx this ! (3 * k + 2))"
      using tri by (intro allI impI)
  qed
qed

subsection \<open>The constructor\<close>

lemma OptimizedMesh_build_fields:
  assumes "OptimizedMesh_build X ty mesh envelope = Inr this"
  shows "verts mesh \<noteq> [] \<and> idx mesh \<noteq> [] \<and> length (idx mesh) mod 3 = 0
     \<and> Contains X envelope (Envelope X (verts mesh))
     \<and> (\<exists>fmt. VertexFormat ty = Inr fmt
          \<and> o_verts this = PackVerts X (verts mesh) (CalcTransformForFormat X envelope fmt) fmt
          \<and> mbr this = TransformRect X (Envelope X (verts mesh)) (CalcTransformForFormat X envelope fmt)
          \<and> o_object_matrix this =
              object_matrix mesh * inverse (CalcTransformForFormat X envelope fmt))
     \<and> type this = ty \<and> o_texture this = texture mesh \<and> o_color this = color (hd (verts mesh))
     \<and> mul_color_modifier this = vec4 1 1 1 1 \<and> add_color_modifier this = vec4 0 0 0 0"
  using assms
  by (auto simp add: OptimizedMesh_build_def Let_def split: list.splits if_splits sum.splits)

lemma OptimizedMesh_build_idx:
  assumes "OptimizedMesh_build X ty mesh envelope = Inr this"
  shows "(length (verts mesh) < kMax16
          \<and> (\<exists>ys. NormalizeTriangleHelper (packed_position_getter X (o_verts this)) (SignedArea X)
                     (map ucast (idx mesh)) = Inr ys \<and> o_idx this = Idx16 ys))
       \<or> (kMax16 \<le> length (verts mesh)
          \<and> (\<exists>ys. NormalizeTriangleHelper (packed_position_getter X (o_verts this)) (SignedArea X)
                     (idx mesh) = Inr ys \<and> o_idx this = Idx32 ys))"
proof -
  obtain v0 vs where vs: "verts mesh = v0 # vs"
    using assms by (auto simp add: OptimizedMesh_build_def split: list.splits)
  obtain fmt where fmt: "VertexFormat ty = Inr fmt"
    using assms vs by (auto simp add: OptimizedMesh_build_def split: if_splits sum.splits)
  show ?thesis
  proof (cases "length (verts mesh) < kMax16")
    case True
    then show ?thesis
      using assms vs fmt
      by (cases "NormalizeTriangleHelper
            (packed_position_getter X
               (PackVerts X (verts mesh) (CalcTransformForFormat X envelope fmt) fmt))
            (SignedArea X) (map ucast (idx mesh) :: 16 word list)")
         (auto simp add: OptimizedMesh_build_def Let_def split: if_splits)
  next
    case False
    then show ?thesis
      using assms vs fmt
      by (cases "NormalizeTriangleHelper
            (packed_position_getter X
               (PackVerts X (verts mesh) (CalcTransformForFormat X envelope fmt) fmt))
            (SignedArea X) (idx mesh)")
         (auto simp add: OptimizedMesh_build_def Let_def split: if_splits)
  qed
qed

lemma OptimizedMesh_build_IndexSize:
  assumes "OptimizedMesh_build X ty mesh envelope = Inr this"
  shows "IndexSize this = length (idx mesh)"
  using OptimizedMesh_build_idx [OF assms]
  by (auto simp add: IndexSize_def dest!: NormalizeTriangleHelper_Inr [THEN conjunct2, THEN conjunct1])

lemma OptimizedMesh_build_Validate:
  assumes "OptimizedMesh_build X ty mesh envelope = Inr this"
  shows "Validate this = Inr ()"
  using OptimizedMesh_build_IndexSize [OF assms] OptimizedMesh_build_fields [OF assms]
  by (simp add: Validate_def)

lemma OptimizedMesh_from_build:
  "OptimizedMesh_from X ty mesh envelope = Inr this \<longleftrightarrow>
   OptimizedMesh_build X ty mesh envelope = Inr this"
proof
  assume "OptimizedMesh_from X ty mesh envelope = Inr this"
  then show "OptimizedMesh_build X ty mesh envelope = Inr this"
    by (simp add: OptimizedMesh_from_def split: sum.splits)
next
  assume b: "OptimizedMesh_build X ty mesh envelope = Inr this"
  then show "OptimizedMesh_from X ty mesh envelope = Inr this"
    by (simp add: OptimizedMesh_from_def OptimizedMesh_build_Validate [OF b])
qed

lemma OptimizedMesh_build_succeeds:
  assumes "verts mesh \<noteq> []" and "idx mesh \<noteq> []" and "length (idx mesh) mod 3 = 0"
      and "Contains X envelope (Envelope X (verts mesh))"
      and "VertexFormat ty = Inr fmt"
      and "\<forall>i\<in>set (idx mesh). unat i <
             size_packed X (PackVerts X (verts mesh) (CalcTransformForFormat X envelope fmt) fmt)"
  shows "\<exists>this. OptimizedMesh_build X ty mesh envelope = Inr this"
proof -
  let ?pv = "PackVerts X (verts mesh) (CalcTransformForFormat X envelope fmt) fmt"
  obtain v0 vs where vs: "verts mesh = v0 # vs"
    using assms(1) by (cases "verts mesh") simp_all
  have in32: "\<forall>x\<in>set (idx mesh). \<exists>p. packed_position_getter X ?pv x = Inr p"
    using assms(6) by (simp add: packed_position_getter_def)
  have "unat (ucast i :: 16 word) \<le> unat i" for i :: "32 word"
  proof -
    have "unat (ucast i :: 16 word) = take_bit LENGTH(16) (unat i)"
      by (rule unsigned_ucast_eq)
    then show ?thesis
      by (simp add: take_bit_eq_mod)
  qed
  then have in16: "\<forall>x\<in>set (map ucast (idx mesh) :: 16 word list).
      \<exists>p. packed_position_getter X ?pv x = Inr p"
    using assms(6) by (auto simp add: packed_position_getter_def intro: le_less_trans)
  obtain ys32 where y32:
    "NormalizeTriangleHelper (packed_position_getter X ?pv) (SignedArea X) (idx mesh) = Inr ys32"
    using NormalizeTriangleHelper_succeeds [OF assms(3) in32] by blast
  have "length (map ucast (idx mesh) :: 16 word list) mod 3 = 0"
    using assms(3) by simp
  from NormalizeTriangleHelper_succeeds [OF this in16] obtain ys16 where y16:
    "NormalizeTriangleHelper (packed_position_getter X ?pv) (SignedArea X)
       (map ucast (idx mesh) :: 16 word list) = Inr ys16"
    by blast
  show ?thesis
    using vs assms(2,3,4,5) y16 y32
    by (simp add: OptimizedMesh_build_def Let_def)
qed

lemma OptimizedMesh_build_no_Validate_error:
  "OptimizedMesh_build X ty mesh envelope \<noteq> Inl (AssertFailed ''IndexSize() % 3 == 0'')"
proof
  assume bad: "OptimizedMesh_build X ty mesh envelope = Inl (AssertFailed ''IndexSize() % 3 == 0'')"
  have getter: "packed_position_getter X pv x \<noteq> Inl (AssertFailed ''IndexSize() % 3 == 0'')"
    for pv and x :: "'i::len word"
    by (simp add: packed_position_getter_def)
  have helper: "NormalizeTriangleHelper (packed_position_getter X pv) (SignedArea X) xs
      \<noteq> Inl (AssertFailed ''IndexSize() % 3 == 0'')"
    for pv and xs :: "'i::len word list"
  proof
    assume h: "NormalizeTriangleHelper (packed_position_getter X pv) (SignedArea X) xs
      = Inl (AssertFailed ''IndexSize() % 3 == 0'')"
    then have "NormalizeTriangleLoop (packed_position_getter X pv) (SignedArea X)
        (length xs div 3) 0 xs = Inl (AssertFailed ''IndexSize() % 3 == 0'')"
      by (simp add: NormalizeTriangleHelper_def split: if_splits)
    from NormalizeTriangleLoop_Inl [OF this] show False
      using getter by blast
  qed
  show False
  proof (cases "verts mesh")
    case Nil
    then show ?thesis
      using bad by (simp add: OptimizedMesh_build_def)
  next
    case (Cons v0 vs)
    show ?thesis
    proof (cases "VertexFormat ty")
      case (Inl e)
      then have "e = AssertFailed ''false''"
        by (simp add: VertexFormat_def split: ShaderType.splits)
      then show ?thesis
        using bad Cons Inl by (simp add: OptimizedMesh_build_def split: if_splits)
    next
      case (Inr fmt)
      let ?pv = "PackVerts X (verts mesh) (CalcTransformForFormat X envelope fmt) fmt"
      show ?thesis
      proof (cases "length (verts mesh) < kMax16")
        case True
        then show ?thesis
          using bad Cons Inr helper [of ?pv "map ucast (idx mesh) :: 16 word list"]
          by (cases "NormalizeTriangleHelper (packed_position_getter X ?pv) (SignedArea X)
                (map ucast (idx mesh) :: 16 word list)")
             (simp_all add: OptimizedMesh_build_def Let_def split: if_splits)
      next
        case False
        then show ?thesis
          using bad Cons Inr helper [of ?pv "idx mesh"]
          by (cases "NormalizeTriangleHelper (packed_position_getter X ?pv) (SignedArea X)
                (idx mesh)")
             (simp_all add: OptimizedMesh_build_def Let_def split: if_splits)
      qed
    qed
  qed
qed

subsection \<open>The operations on the example meshes\<close>

lemma quad_mesh_packed:
  "OptimizedMesh_from exact_externals ColoredVertShader quad_mesh ((0, 0), (4, 4)) = Inr quad_packed"
  by (simp add: OptimizedMesh_from_def OptimizedMesh_build_def quad_mesh_def quad_packed_def
      exact_externals_def VertexFormat_def kMax16_def NormalizeTriangleHelper_def
      NormalizeTriangleLoop.simps packed_position_getter_def Validate_def IndexSize_def)

lemma wide_mesh_packed:
  "\<exists>this. OptimizedMesh_of exact_externals SingleColorShader wide_mesh = Inr this
     \<and> o_idx this = Idx32 [0, 1, 2]"
  by (simp add: OptimizedMesh_of_def OptimizedMesh_from_def OptimizedMesh_build_def wide_mesh_def
      exact_externals_def VertexFormat_def kMax16_def NormalizeTriangleHelper_def
      NormalizeTriangleLoop.simps packed_position_getter_def Validate_def IndexSize_def)

lemma quad_mesh_oriented:
  "NormalizeTriangleOrientation exact_externals quad_mesh = Inr (quad_mesh\<lparr>idx := [0, 1, 2, 1, 3, 2]\<rparr>)"
  by (simp add: NormalizeTriangleOrientation_def quad_mesh_def
      exact_externals_def NormalizeTriangleHelper_def
      NormalizeTriangleLoop.simps Mesh_position_getter_def)

section \<open>Index16\<close>

text \<open>
  C2. \<^verbatim>\<open>Index16()\<close> on a mesh holding the 32-bit alternative is the explicit fatal error
  and no buffer; on a mesh holding the 16-bit alternative it is that buffer, unchanged.
  In particular it is the fatal error on every mesh the constructor made from 65535
  vertices or more.
\<close>

theorem Index16_by_variant:
  "Index16 (this\<lparr>o_idx := Idx32 v\<rparr>) =
     Inl (RuntimeError ''Cannot represent this optimized mesh's index in 16 bits'')
   \<and> Index16 (this\<lparr>o_idx := Idx16 w\<rparr>) = Inr w
   \<and> (OptimizedMesh_from X ty mesh envelope = Inr made \<and> 65535 \<le> length (verts mesh) \<longrightarrow>
        Index16 made = Inl (RuntimeError ''Cannot represent this optimized mesh's index in 16 bits''))"
proof (intro conjI impI)
  show "Index16 (this\<lparr>o_idx := Idx32 v\<rparr>) =
     Inl (RuntimeError ''Cannot represent this optimized mesh's index in 16 bits'')"
    by (simp add: Index16_def)
  show "Index16 (this\<lparr>o_idx := Idx16 w\<rparr>) = Inr w"
    by (simp add: Index16_def)
next
  assume a: "OptimizedMesh_from X ty mesh envelope = Inr made \<and> 65535 \<le> length (verts mesh)"
  then have "OptimizedMesh_build X ty mesh envelope = Inr made"
    by (simp only: OptimizedMesh_from_build)
  from OptimizedMesh_build_idx [OF this] a obtain ys where "o_idx made = Idx32 ys"
    by (auto simp add: kMax16_def)
  then show "Index16 made =
      Inl (RuntimeError ''Cannot represent this optimized mesh's index in 16 bits'')"
    by (simp add: Index16_def)
qed

theorem Index16_by_variant_witness:
  "map_sum id Index16 (OptimizedMesh_of exact_externals SingleColorShader wide_mesh) =
     Inr (Inl (RuntimeError ''Cannot represent this optimized mesh's index in 16 bits''))
   \<and> 65535 \<le> length (verts wide_mesh)"
proof -
  from wide_mesh_packed obtain made where
    m: "OptimizedMesh_from exact_externals SingleColorShader wide_mesh
          (Envelope exact_externals (verts wide_mesh)) = Inr made"
    unfolding OptimizedMesh_of_def by blast
  have l: "65535 \<le> length (verts wide_mesh)"
    by (simp add: wide_mesh_def)
  have "Index16 made = Inl (RuntimeError ''Cannot represent this optimized mesh's index in 16 bits'')"
    using Index16_by_variant [where X = exact_externals and ty = SingleColorShader
        and mesh = wide_mesh and envelope = "Envelope exact_externals (verts wide_mesh)"
        and made = made and this = made and v = "[]" and w = "[]"] m l
    by blast
  then show ?thesis
    using m l by (simp add: OptimizedMesh_of_def)
qed

section \<open>ClearCpuMemoryVerts\<close>

text \<open>
  C3, as the claim has it: the index state is left unchanged. On a mesh holding three
  16-bit indices the operation leaves none.
\<close>

theorem ClearCpuMemoryVerts_drops_indices:
  "o_idx (ClearCpuMemoryVerts exact_externals
       \<lparr>type = SingleColorShader, o_verts = [], o_texture = None :: nat option,
        o_object_matrix = 1, mbr = ((0, 0), (1, 1)), o_color = vec4 0 0 0 1,
        mul_color_modifier = vec4 1 1 1 1, add_color_modifier = vec4 0 0 0 0,
        o_idx = Idx16 [0, 1, 2]\<rparr>) = Idx16 []
   \<and> Idx16 [] \<noteq> Idx16 [0, 1, 2]"
  by (simp add: ClearCpuMemoryVerts_def)

text \<open>
  C3, amended. \<^verbatim>\<open>ClearCpuMemoryVerts()\<close> replaces the packed vertex list by the cleared
  one (empty, when \<^verbatim>\<open>PackedVertList::Clear\<close> empties) and the index alternative by an
  empty 16-bit sequence, so that \<^verbatim>\<open>IndexSize()\<close> is 0; the shader type, the base color,
  both color modifiers, the texture, the transform and the bounding rectangle stay.
\<close>

theorem ClearCpuMemoryVerts_frame:
  "o_verts (ClearCpuMemoryVerts X this) = Clear_packed X (o_verts this)
   \<and> ((\<forall>p. size_packed X (Clear_packed X p) = 0) \<longrightarrow>
        size_packed X (o_verts (ClearCpuMemoryVerts X this)) = 0)
   \<and> o_idx (ClearCpuMemoryVerts X this) = Idx16 []
   \<and> IndexSize (ClearCpuMemoryVerts X this) = 0
   \<and> type (ClearCpuMemoryVerts X this) = type this
   \<and> o_color (ClearCpuMemoryVerts X this) = o_color this
   \<and> mul_color_modifier (ClearCpuMemoryVerts X this) = mul_color_modifier this
   \<and> add_color_modifier (ClearCpuMemoryVerts X this) = add_color_modifier this
   \<and> o_texture (ClearCpuMemoryVerts X this) = o_texture this
   \<and> o_object_matrix (ClearCpuMemoryVerts X this) = o_object_matrix this
   \<and> mbr (ClearCpuMemoryVerts X this) = mbr this"
  by (simp add: ClearCpuMemoryVerts_def IndexSize_def)

theorem ClearCpuMemoryVerts_frame_witness:
  "ClearCpuMemoryVerts exact_externals
       \<lparr>type = ColoredVertShader,
        o_verts = [\<lparr>position = (2, 4), color = vec4 1 0 0 1, texture_coords = (0, 0)\<rparr>],
        o_texture = Some (7 :: nat), o_object_matrix = 1 / 2, mbr = ((2, 4), (2, 4)),
        o_color = vec4 1 0 0 1, mul_color_modifier = vec4 1 1 1 1,
        add_color_modifier = vec4 0 0 0 0, o_idx = Idx32 [0, 0, 0]\<rparr>
   = \<lparr>type = ColoredVertShader, o_verts = [],
        o_texture = Some 7, o_object_matrix = 1 / 2, mbr = ((2, 4), (2, 4)),
        o_color = vec4 1 0 0 1, mul_color_modifier = vec4 1 1 1 1,
        add_color_modifier = vec4 0 0 0 0, o_idx = Idx16 []\<rparr>
   \<and> size_packed exact_externals (o_verts (ClearCpuMemoryVerts exact_externals
       \<lparr>type = ColoredVertShader,
        o_verts = [\<lparr>position = (2, 4), color = vec4 1 0 0 1, texture_coords = (0, 0)\<rparr>],
        o_texture = Some (7 :: nat), o_object_matrix = 1 / 2, mbr = ((2, 4), (2, 4)),
        o_color = vec4 1 0 0 1, mul_color_modifier = vec4 1 1 1 1,
        add_color_modifier = vec4 0 0 0 0, o_idx = Idx32 [0, 0, 0]\<rparr>)) = 0"
  using ClearCpuMemoryVerts_frame [of exact_externals
       "\<lparr>type = ColoredVertShader,
        o_verts = [\<lparr>position = (2, 4), color = vec4 1 0 0 1, texture_coords = (0, 0)\<rparr>],
        o_texture = Some (7 :: nat), o_object_matrix = 1 / 2, mbr = ((2, 4), (2, 4)),
        o_color = vec4 1 0 0 1, mul_color_modifier = vec4 1 1 1 1,
        add_color_modifier = vec4 0 0 0 0, o_idx = Idx32 [0, 0, 0]\<rparr>"]
  by (simp add: ClearCpuMemoryVerts_def exact_externals_def)

section \<open>FatLine: every appended vertex passes through the callback\<close>




section \<open>Mesh::Append\<close>

text \<open>
  C4. \<open>A\<close> is the receiver and \<open>B\<close> the argument, and the assertion of \<^verbatim>\<open>Append\<close>
  holds (one of them has no vertices, or both have indices, or neither has). When
  \<open>B\<close> is another mesh than \<open>A\<close>, \<^verbatim>\<open>A.Append(B)\<close> leaves \<open>B\<close> as it is and gives
  \<open>A\<close>, after its own vertices, each vertex of \<open>B\<close> in order, its position transformed
  by \<open>inverse (object_matrix A) * object_matrix B\<close> and nothing else of it changed, and,
  after its own indices, each index of \<open>B\<close> in order plus the vertex count \<open>A\<close> had, in
  \<^verbatim>\<open>uint32_t\<close>; where no sum passes \<open>2 ^ 32\<close> that is the sum of the numbers. The object
  matrix and the texture of \<open>A\<close> stay. When \<open>B\<close> is \<open>A\<close> itself, \<^verbatim>\<open>A.Append(A)\<close> has
  no defined behaviour as soon as \<open>A\<close> has a vertex or an index, and changes nothing
  when it has neither.
\<close>

theorem Append_concatenates:
  assumes "objects this = Some A" and "objects other = Some B"
      and "verts B = [] \<or> verts A = [] \<or> (idx B = []) = (idx A = [])"
  shows "(other \<noteq> this \<longrightarrow>
          (\<exists>result. Append X objects this other = Inr (objects(this \<mapsto> result))
             \<and> (objects(this \<mapsto> result)) other = Some B
             \<and> verts result = verts A @
                 map (\<lambda>ov. ov\<lparr>position :=
                        Transform X (position ov) (inverse (object_matrix A) * object_matrix B)\<rparr>)
                   (verts B)
             \<and> idx result = idx A @ map (\<lambda>i. i + of_nat (length (verts A))) (idx B)
             \<and> ((\<forall>i\<in>set (idx B). unat i + length (verts A) < 2 ^ 32) \<longrightarrow>
                  map unat (idx result) =
                    map unat (idx A) @ map (\<lambda>i. unat i + length (verts A)) (idx B))
             \<and> object_matrix result = object_matrix A
             \<and> texture result = texture A))
     \<and> (other = this \<and> (verts A \<noteq> [] \<or> idx A \<noteq> []) \<longrightarrow>
          Append X objects this other = Inl UndefinedBehavior)
     \<and> (other = this \<and> verts A = [] \<and> idx A = [] \<longrightarrow>
          Append X objects this other = Inr objects)"
proof (intro conjI impI)
  assume distinct: "other \<noteq> this"
  let ?result = "A\<lparr>verts := verts A @
                 map (\<lambda>ov. ov\<lparr>position :=
                        Transform X (position ov) (inverse (object_matrix A) * object_matrix B)\<rparr>)
                   (verts B),
               idx := idx A @ map (\<lambda>i. i + of_nat (length (verts A))) (idx B)\<rparr>"
  have run: "Append X objects this other = Inr (objects(this \<mapsto> ?result))"
    using assms distinct
    by (simp add: Append_def Let_def Append_verts_eq Append_idx_eq)
  have kept: "(objects(this \<mapsto> ?result)) other = Some B"
    using assms(2) distinct by simp
  have numbers: "map unat (idx ?result) =
      map unat (idx A) @ map (\<lambda>i. unat i + length (verts A)) (idx B)"
    if "\<forall>i\<in>set (idx B). unat i + length (verts A) < 2 ^ 32"
    using that by (simp add: unat_offset)
  show "\<exists>result. Append X objects this other = Inr (objects(this \<mapsto> result))
             \<and> (objects(this \<mapsto> result)) other = Some B
             \<and> verts result = verts A @
                 map (\<lambda>ov. ov\<lparr>position :=
                        Transform X (position ov) (inverse (object_matrix A) * object_matrix B)\<rparr>)
                   (verts B)
             \<and> idx result = idx A @ map (\<lambda>i. i + of_nat (length (verts A))) (idx B)
             \<and> ((\<forall>i\<in>set (idx B). unat i + length (verts A) < 2 ^ 32) \<longrightarrow>
                  map unat (idx result) =
                    map unat (idx A) @ map (\<lambda>i. unat i + length (verts A)) (idx B))
             \<and> object_matrix result = object_matrix A
             \<and> texture result = texture A"
  proof (intro exI [of _ ?result] conjI impI)
    show "Append X objects this other = Inr (objects(this \<mapsto> ?result))"
      by (rule run)
    show "(objects(this \<mapsto> ?result)) other = Some B"
      by (rule kept)
    show "map unat (idx ?result) =
        map unat (idx A) @ map (\<lambda>i. unat i + length (verts A)) (idx B)"
      if "\<forall>i\<in>set (idx B). unat i + length (verts A) < 2 ^ 32"
      using that by (rule numbers)
  qed simp_all
next
  assume self: "other = this \<and> (verts A \<noteq> [] \<or> idx A \<noteq> [])"
  then have "B = A"
    using assms(1,2) by simp
  then show "Append X objects this other = Inl UndefinedBehavior"
    using assms(1) self
    by (auto simp add: Append_def Let_def Append_verts_same Append_idx_same)
next
  assume self: "other = this \<and> verts A = [] \<and> idx A = []"
  then have "A\<lparr>verts := [], idx := []\<rparr> = A"
    by simp
  then have "objects(this \<mapsto> A\<lparr>verts := [], idx := []\<rparr>) = objects"
    using assms(1) by (simp add: map_upd_triv)
  then show "Append X objects this other = Inr objects"
    using assms(1) self
    by (simp add: Append_def Let_def)
qed

theorem Append_concatenates_witness:
  "map_sum id (\<lambda>objects. objects 0)
     (Append exact_externals
        [0 \<mapsto> \<lparr>verts = [\<lparr>position = (0, 0), color = vec4 0 0 0 1, texture_coords = (0, 0)\<rparr>,
                         \<lparr>position = (4, 0), color = vec4 0 0 0 1, texture_coords = (0, 0)\<rparr>,
                         \<lparr>position = (0, 4), color = vec4 0 0 0 1, texture_coords = (0, 0)\<rparr>],
                idx = [0, 1, 2], texture = None :: nat option, object_matrix = 1\<rparr>,
         1 \<mapsto> \<lparr>verts = [\<lparr>position = (1, 1), color = vec4 1 0 0 1, texture_coords = (0, 0)\<rparr>],
                idx = [0, 0, 0], texture = None, object_matrix = 2\<rparr>] 0 1)
   = Inr (Some \<lparr>verts = [\<lparr>position = (0, 0), color = vec4 0 0 0 1, texture_coords = (0, 0)\<rparr>,
                         \<lparr>position = (4, 0), color = vec4 0 0 0 1, texture_coords = (0, 0)\<rparr>,
                         \<lparr>position = (0, 4), color = vec4 0 0 0 1, texture_coords = (0, 0)\<rparr>,
                         \<lparr>position = (2, 2), color = vec4 1 0 0 1, texture_coords = (0, 0)\<rparr>],
                idx = [0, 1, 2, 3, 3, 3], texture = None, object_matrix = 1\<rparr>)
   \<and> Append exact_externals [0 \<mapsto> quad_mesh] 0 0 = Inl UndefinedBehavior
   \<and> Append exact_externals [0 \<mapsto> quad_mesh\<lparr>verts := [], idx := []\<rparr>] 0 0 =
       Inr [0 \<mapsto> quad_mesh\<lparr>verts := [], idx := []\<rparr>]"
proof -
  let ?A = "\<lparr>verts = [\<lparr>position = (0, 0), color = vec4 0 0 0 1, texture_coords = (0, 0)\<rparr>,
                         \<lparr>position = (4, 0), color = vec4 0 0 0 1, texture_coords = (0, 0)\<rparr>,
                         \<lparr>position = (0, 4), color = vec4 0 0 0 1, texture_coords = (0, 0)\<rparr>],
                idx = [0, 1, 2], texture = None :: nat option, object_matrix = 1 :: rat\<rparr>"
  let ?B = "\<lparr>verts = [\<lparr>position = (1, 1), color = vec4 1 0 0 1, texture_coords = (0, 0)\<rparr>],
                idx = [0, 0, 0], texture = None :: nat option, object_matrix = 2 :: rat\<rparr>"
  have first: "map_sum id (\<lambda>objects. objects 0) (Append exact_externals [0 \<mapsto> ?A, 1 \<mapsto> ?B] 0 1)
      = Inr (Some \<lparr>verts = [\<lparr>position = (0, 0), color = vec4 0 0 0 1, texture_coords = (0, 0)\<rparr>,
                         \<lparr>position = (4, 0), color = vec4 0 0 0 1, texture_coords = (0, 0)\<rparr>,
                         \<lparr>position = (0, 4), color = vec4 0 0 0 1, texture_coords = (0, 0)\<rparr>,
                         \<lparr>position = (2, 2), color = vec4 1 0 0 1, texture_coords = (0, 0)\<rparr>],
                idx = [0, 1, 2, 3, 3, 3], texture = None, object_matrix = 1\<rparr>)"
    using Append_concatenates [where objects = "[0 \<mapsto> ?A, 1 \<mapsto> ?B]" and this = 0 and other = 1
        and A = ?A and B = ?B and X = exact_externals]
    by (auto simp add: exact_externals_def)
  have second: "Append exact_externals [0 \<mapsto> quad_mesh] 0 0 = Inl UndefinedBehavior"
    using Append_concatenates [where objects = "[0 \<mapsto> quad_mesh]" and this = 0 and other = 0
        and A = quad_mesh and B = quad_mesh and X = exact_externals]
    by (simp add: quad_mesh_def)
  have third: "Append exact_externals [0 \<mapsto> quad_mesh\<lparr>verts := [], idx := []\<rparr>] 0 0 =
       Inr [0 \<mapsto> quad_mesh\<lparr>verts := [], idx := []\<rparr>]"
    using Append_concatenates [where objects = "[0 \<mapsto> quad_mesh\<lparr>verts := [], idx := []\<rparr>]"
        and this = 0 and other = 0 and A = "quad_mesh\<lparr>verts := [], idx := []\<rparr>"
        and B = "quad_mesh\<lparr>verts := [], idx := []\<rparr>" and X = exact_externals]
    by simp
  show ?thesis
    using first second third by simp
qed

section \<open>Mesh::Deindex and Mesh::GenIndex\<close>

text \<open>
  C7. On every mesh without indices, with or without vertices, \<^verbatim>\<open>Deindex()\<close> returns
  the mesh as it is, and the \<open>k\<close>-th index \<^verbatim>\<open>GenIndex()\<close> then writes selects the
  \<open>k\<close>-th vertex. On a mesh with indices, all below the vertex count, \<^verbatim>\<open>Deindex()\<close>
  leaves one vertex per index occurrence, the \<open>i\<close>-th being the old vertex at the old
  \<open>i\<close>-th index, and no indices; \<^verbatim>\<open>GenIndex()\<close> after it gives as many indices as
  before, each in range, and the \<open>k\<close>-th index of the new mesh selects the vertex the
  \<open>k\<close>-th index of the old mesh selected, so every consecutive index triple has the
  same three positions (shared vertices or not). The two statements about
  \<^verbatim>\<open>GenIndex()\<close> are for counts below \<open>2 ^ 32\<close>, the range of the \<^verbatim>\<open>uint32_t\<close> it
  writes. On a mesh with an index that is not below the vertex count, \<^verbatim>\<open>Deindex()\<close>
  reads outside the vertex sequence.
\<close>

theorem Deindex_expands:
  "(idx this = [] \<longrightarrow>
      Deindex X this = Inr this
    \<and> (length (verts this) < 2 ^ 32 \<longrightarrow>
         (\<forall>k<length (verts this).
            unat (idx (GenIndex this) ! k) < length (verts (GenIndex this))
          \<and> verts (GenIndex this) ! unat (idx (GenIndex this) ! k) = verts this ! k)))
   \<and> (idx this \<noteq> [] \<and> (\<forall>i\<in>set (idx this). unat i < length (verts this)) \<longrightarrow>
      Deindex X this = Inr (this\<lparr>idx := [], verts := map (\<lambda>i. verts this ! unat i) (idx this)\<rparr>)
    \<and> (length (idx this) < 2 ^ 32 \<longrightarrow>
         (\<exists>d. Deindex X this = Inr d
            \<and> length (idx (GenIndex d)) = length (idx this)
            \<and> (\<forall>k<length (idx this).
                  unat (idx (GenIndex d) ! k) < length (verts (GenIndex d))
                \<and> verts (GenIndex d) ! unat (idx (GenIndex d) ! k) =
                    verts this ! unat (idx this ! k)))))
   \<and> (idx this \<noteq> [] \<and> \<not> (\<forall>i\<in>set (idx this). unat i < length (verts this)) \<longrightarrow>
      Deindex X this = Inl UndefinedBehavior)"
proof (intro conjI impI)
  assume "idx this = []"
  then show "Deindex X this = Inr this"
    by (simp add: Deindex_def)
next
  assume fits: "length (verts this) < 2 ^ 32"
  show "\<forall>k<length (verts this).
            unat (idx (GenIndex this) ! k) < length (verts (GenIndex this))
          \<and> verts (GenIndex this) ! unat (idx (GenIndex this) ! k) = verts this ! k"
  proof (intro allI impI)
    fix k
    assume k: "k < length (verts this)"
    then have "k < 2 ^ 32"
      using fits by simp
    then have "unat (of_nat k :: 32 word) = k"
      by (simp add: unat_of_nat)
    then show "unat (idx (GenIndex this) ! k) < length (verts (GenIndex this))
          \<and> verts (GenIndex this) ! unat (idx (GenIndex this) ! k) = verts this ! k"
      using k by (simp add: GenIndex_def)
  qed
next
  assume indexed: "idx this \<noteq> [] \<and> (\<forall>i\<in>set (idx this). unat i < length (verts this))"
  let ?d = "this\<lparr>idx := [], verts := map (\<lambda>i. verts this ! unat i) (idx this)\<rparr>"
  have loop: "Deindex_loop (verts this) (idx this) 0 (replicate (length (idx this)) (Vertex0 X)) =
      Inr (map (\<lambda>i. verts this ! unat i) (idx this))"
    using indexed by (simp add: Deindex_loop_eq)
  show expand: "Deindex X this = Inr ?d"
    using indexed by (simp add: Deindex_def loop)
  assume fits: "length (idx this) < 2 ^ 32"
  have len: "length (idx (GenIndex ?d)) = length (idx this)"
    by (simp add: GenIndex_def)
  have vs: "verts (GenIndex ?d) = map (\<lambda>i. verts this ! unat i) (idx this)"
    by (simp add: GenIndex_def)
  have corners: "unat (idx (GenIndex ?d) ! k) < length (verts (GenIndex ?d))
              \<and> verts (GenIndex ?d) ! unat (idx (GenIndex ?d) ! k) = verts this ! unat (idx this ! k)"
    if k: "k < length (idx this)" for k
  proof -
    have "k < 2 ^ 32"
      using fits k by simp
    then have "unat (of_nat k :: 32 word) = k"
      by (simp add: unat_of_nat)
    then have "unat (idx (GenIndex ?d) ! k) = k"
      using k by (simp add: GenIndex_def)
    then show ?thesis
      using k by (simp add: vs)
  qed
  show "\<exists>d. Deindex X this = Inr d
            \<and> length (idx (GenIndex d)) = length (idx this)
            \<and> (\<forall>k<length (idx this).
                  unat (idx (GenIndex d) ! k) < length (verts (GenIndex d))
                \<and> verts (GenIndex d) ! unat (idx (GenIndex d) ! k) =
                    verts this ! unat (idx this ! k))"
    using expand len corners by blast
next
  assume bad: "idx this \<noteq> [] \<and> \<not> (\<forall>i\<in>set (idx this). unat i < length (verts this))"
  then have "\<not> (\<forall>j\<in>set (drop 0 (idx this)). unat j < length (verts this))"
    by simp
  then have "Deindex_loop (verts this) (idx this) 0 (replicate (length (idx this)) (Vertex0 X)) =
      Inl UndefinedBehavior"
    by (rule Deindex_loop_out_of_range)
  then show "Deindex X this = Inl UndefinedBehavior"
    using bad by (simp add: Deindex_def)
qed

theorem Deindex_expands_witness:
  "Deindex exact_externals
     \<lparr>verts = [], idx = [], texture = None :: nat option, object_matrix = 1 :: rat\<rparr>
   = Inr \<lparr>verts = [], idx = [], texture = None, object_matrix = 1\<rparr>
   \<and> Deindex exact_externals (quad_mesh\<lparr>idx := []\<rparr>) = Inr (quad_mesh\<lparr>idx := []\<rparr>)
   \<and> idx (GenIndex (quad_mesh\<lparr>idx := []\<rparr>)) = [0, 1, 2, 3]
   \<and> Deindex exact_externals
     \<lparr>verts = [\<lparr>position = (0, 0), color = vec4 0 0 0 1, texture_coords = (0, 0)\<rparr>,
               \<lparr>position = (4, 0), color = vec4 0 0 1 1, texture_coords = (0, 0)\<rparr>,
               \<lparr>position = (0, 4), color = vec4 0 1 0 1, texture_coords = (0, 0)\<rparr>,
               \<lparr>position = (4, 4), color = vec4 1 0 0 1, texture_coords = (0, 0)\<rparr>],
       idx = [0, 1, 2, 2, 1, 3], texture = None :: nat option, object_matrix = 1 :: rat\<rparr>
   = Inr \<lparr>verts = [\<lparr>position = (0, 0), color = vec4 0 0 0 1, texture_coords = (0, 0)\<rparr>,
               \<lparr>position = (4, 0), color = vec4 0 0 1 1, texture_coords = (0, 0)\<rparr>,
               \<lparr>position = (0, 4), color = vec4 0 1 0 1, texture_coords = (0, 0)\<rparr>,
               \<lparr>position = (0, 4), color = vec4 0 1 0 1, texture_coords = (0, 0)\<rparr>,
               \<lparr>position = (4, 0), color = vec4 0 0 1 1, texture_coords = (0, 0)\<rparr>,
               \<lparr>position = (4, 4), color = vec4 1 0 0 1, texture_coords = (0, 0)\<rparr>],
       idx = [], texture = None, object_matrix = 1\<rparr>
   \<and> idx (GenIndex
       \<lparr>verts = [\<lparr>position = (0, 0), color = vec4 0 0 0 1, texture_coords = (0, 0)\<rparr>,
               \<lparr>position = (4, 0), color = vec4 0 0 1 1, texture_coords = (0, 0)\<rparr>,
               \<lparr>position = (0, 4), color = vec4 0 1 0 1, texture_coords = (0, 0)\<rparr>,
               \<lparr>position = (0, 4), color = vec4 0 1 0 1, texture_coords = (0, 0)\<rparr>,
               \<lparr>position = (4, 0), color = vec4 0 0 1 1, texture_coords = (0, 0)\<rparr>,
               \<lparr>position = (4, 4), color = vec4 1 0 0 1, texture_coords = (0, 0)\<rparr>],
       idx = [], texture = None :: nat option, object_matrix = 1 :: rat\<rparr>) = [0, 1, 2, 3, 4, 5]
   \<and> Deindex exact_externals (quad_mesh\<lparr>idx := [0, 1, 4]\<rparr>) = Inl UndefinedBehavior"
proof -
  have empty: "Deindex exact_externals
     \<lparr>verts = [], idx = [], texture = None :: nat option, object_matrix = 1 :: rat\<rparr>
   = Inr \<lparr>verts = [], idx = [], texture = None, object_matrix = 1\<rparr>"
    using Deindex_expands [of
        "\<lparr>verts = [], idx = [], texture = None :: nat option, object_matrix = 1 :: rat\<rparr>"
        exact_externals]
    by simp
  have flat: "Deindex exact_externals (quad_mesh\<lparr>idx := []\<rparr>) = Inr (quad_mesh\<lparr>idx := []\<rparr>)"
    using Deindex_expands [of "quad_mesh\<lparr>idx := []\<rparr>" exact_externals]
    by simp
  have indexed: "Deindex exact_externals
     \<lparr>verts = [\<lparr>position = (0, 0), color = vec4 0 0 0 1, texture_coords = (0, 0)\<rparr>,
               \<lparr>position = (4, 0), color = vec4 0 0 1 1, texture_coords = (0, 0)\<rparr>,
               \<lparr>position = (0, 4), color = vec4 0 1 0 1, texture_coords = (0, 0)\<rparr>,
               \<lparr>position = (4, 4), color = vec4 1 0 0 1, texture_coords = (0, 0)\<rparr>],
       idx = [0, 1, 2, 2, 1, 3], texture = None :: nat option, object_matrix = 1 :: rat\<rparr>
   = Inr \<lparr>verts = [\<lparr>position = (0, 0), color = vec4 0 0 0 1, texture_coords = (0, 0)\<rparr>,
               \<lparr>position = (4, 0), color = vec4 0 0 1 1, texture_coords = (0, 0)\<rparr>,
               \<lparr>position = (0, 4), color = vec4 0 1 0 1, texture_coords = (0, 0)\<rparr>,
               \<lparr>position = (0, 4), color = vec4 0 1 0 1, texture_coords = (0, 0)\<rparr>,
               \<lparr>position = (4, 0), color = vec4 0 0 1 1, texture_coords = (0, 0)\<rparr>,
               \<lparr>position = (4, 4), color = vec4 1 0 0 1, texture_coords = (0, 0)\<rparr>],
       idx = [], texture = None, object_matrix = 1\<rparr>"
    using Deindex_expands [of
     "\<lparr>verts = [\<lparr>position = (0, 0), color = vec4 0 0 0 1, texture_coords = (0, 0)\<rparr>,
               \<lparr>position = (4, 0), color = vec4 0 0 1 1, texture_coords = (0, 0)\<rparr>,
               \<lparr>position = (0, 4), color = vec4 0 1 0 1, texture_coords = (0, 0)\<rparr>,
               \<lparr>position = (4, 4), color = vec4 1 0 0 1, texture_coords = (0, 0)\<rparr>],
       idx = [0, 1, 2, 2, 1, 3], texture = None :: nat option, object_matrix = 1 :: rat\<rparr>"
     exact_externals]
    by simp
  have outside: "Deindex exact_externals (quad_mesh\<lparr>idx := [0, 1, 4]\<rparr>) = Inl UndefinedBehavior"
    using Deindex_expands [of "quad_mesh\<lparr>idx := [0, 1, 4]\<rparr>" exact_externals]
    by (simp add: quad_mesh_def)
  show ?thesis
    using empty flat indexed outside by (simp add: GenIndex_def quad_mesh_def)
qed

section \<open>OptimizedMesh::ToMesh\<close>

text \<open>
  C8. \<^verbatim>\<open>ToMesh()\<close> returns one vertex per packed vertex: the \<open>i\<close>-th is the \<open>i\<close>-th
  packed vertex unpacked into a fresh \<^verbatim>\<open>Vertex\<close>, with its color replaced by (the stored
  base color if the shader type is \<^verbatim>\<open>SingleColorShader\<close>, else the unpacked color)
  times the multiplicative modifier plus the additive modifier, componentwise. The
  indices are those of the stored alternative, in number and in value; the object matrix
  and the texture are the stored ones.
\<close>

theorem ToMesh_unpacks:
  "verts (ToMesh X this) =
     map (\<lambda>i. (UnpackVertex X (o_verts this) i (Vertex0 X))
            \<lparr>color := vec4_plus
               (vec4_times
                  (if type this = SingleColorShader then o_color this
                   else color (UnpackVertex X (o_verts this) i (Vertex0 X)))
                  (mul_color_modifier this))
               (add_color_modifier this)\<rparr>)
       [0 ..< size_packed X (o_verts this)]
   \<and> length (verts (ToMesh X this)) = size_packed X (o_verts this)
   \<and> map unat (idx (ToMesh X this)) =
       (case o_idx this of Idx32 v \<Rightarrow> map unat v | Idx16 v \<Rightarrow> map unat v)
   \<and> length (idx (ToMesh X this)) = IndexSize this
   \<and> length (idx (ToMesh X this)) div 3 = IndexSize this div 3
   \<and> object_matrix (ToMesh X this) = o_object_matrix this
   \<and> texture (ToMesh X this) = o_texture this"
proof -
  have "verts (ToMesh X this) =
     map (\<lambda>i. ToMesh_vertex X this i (replicate (size_packed X (o_verts this)) (Vertex0 X) ! i))
       [0 ..< size_packed X (o_verts this)]"
    by (simp add: ToMesh_def ToMesh_loop_eq)
  also have "\<dots> = map (\<lambda>i. ToMesh_vertex X this i (Vertex0 X)) [0 ..< size_packed X (o_verts this)]"
    by (rule map_cong) simp_all
  finally have v: "verts (ToMesh X this) =
     map (\<lambda>i. ToMesh_vertex X this i (Vertex0 X)) [0 ..< size_packed X (o_verts this)]" .
  have i: "map unat (idx (ToMesh X this)) =
       (case o_idx this of Idx32 v \<Rightarrow> map unat v | Idx16 v \<Rightarrow> map unat v)"
    by (simp add: ToMesh_def unat16_ucast32 split: IndexVariant.split)
  have l: "length (idx (ToMesh X this)) = IndexSize this"
    by (simp add: ToMesh_def IndexSize_def split: IndexVariant.split)
  have o: "object_matrix (ToMesh X this) = o_object_matrix this"
    by (simp add: ToMesh_def)
  have t: "texture (ToMesh X this) = o_texture this"
    by (simp add: ToMesh_def split: option.split)
  show ?thesis
    using v i l o t by (simp add: ToMesh_vertex_def Let_def)
qed

theorem ToMesh_unpacks_witness:
  "verts (ToMesh exact_externals quad_packed) =
     [\<lparr>position = (0, 0), color = vec4 0 0 0 1, texture_coords = (0, 0)\<rparr>,
      \<lparr>position = (8, 0), color = vec4 0 0 1 1, texture_coords = (0, 0)\<rparr>,
      \<lparr>position = (0, 8), color = vec4 0 1 0 1, texture_coords = (0, 0)\<rparr>,
      \<lparr>position = (8, 8), color = vec4 1 0 0 1, texture_coords = (0, 0)\<rparr>]
   \<and> verts (ToMesh exact_externals
        (quad_packed\<lparr>type := SingleColorShader, o_color := vec4 1 1 0 1,
           mul_color_modifier := vec4 (1 / 2) 1 1 1, add_color_modifier := vec4 0 0 (1 / 4) 0\<rparr>)) =
     [\<lparr>position = (0, 0), color = vec4 (1 / 2) 1 (1 / 4) 1, texture_coords = (0, 0)\<rparr>,
      \<lparr>position = (8, 0), color = vec4 (1 / 2) 1 (1 / 4) 1, texture_coords = (0, 0)\<rparr>,
      \<lparr>position = (0, 8), color = vec4 (1 / 2) 1 (1 / 4) 1, texture_coords = (0, 0)\<rparr>,
      \<lparr>position = (8, 8), color = vec4 (1 / 2) 1 (1 / 4) 1, texture_coords = (0, 0)\<rparr>]
   \<and> idx (ToMesh exact_externals quad_packed) = [0, 1, 2, 1, 3, 2]
   \<and> object_matrix (ToMesh exact_externals quad_packed) = 3 / 2
   \<and> texture (ToMesh exact_externals quad_packed) = Some 7"
proof -
  have a: "verts (ToMesh exact_externals quad_packed) =
     [\<lparr>position = (0, 0), color = vec4 0 0 0 1, texture_coords = (0, 0)\<rparr>,
      \<lparr>position = (8, 0), color = vec4 0 0 1 1, texture_coords = (0, 0)\<rparr>,
      \<lparr>position = (0, 8), color = vec4 0 1 0 1, texture_coords = (0, 0)\<rparr>,
      \<lparr>position = (8, 8), color = vec4 1 0 0 1, texture_coords = (0, 0)\<rparr>]"
    using ToMesh_unpacks [of exact_externals quad_packed]
    by (simp add: quad_packed_def exact_externals_def upt_rec)
  have b: "verts (ToMesh exact_externals
        (quad_packed\<lparr>type := SingleColorShader, o_color := vec4 1 1 0 1,
           mul_color_modifier := vec4 (1 / 2) 1 1 1, add_color_modifier := vec4 0 0 (1 / 4) 0\<rparr>)) =
     [\<lparr>position = (0, 0), color = vec4 (1 / 2) 1 (1 / 4) 1, texture_coords = (0, 0)\<rparr>,
      \<lparr>position = (8, 0), color = vec4 (1 / 2) 1 (1 / 4) 1, texture_coords = (0, 0)\<rparr>,
      \<lparr>position = (0, 8), color = vec4 (1 / 2) 1 (1 / 4) 1, texture_coords = (0, 0)\<rparr>,
      \<lparr>position = (8, 8), color = vec4 (1 / 2) 1 (1 / 4) 1, texture_coords = (0, 0)\<rparr>]"
    using ToMesh_unpacks [of exact_externals
        "quad_packed\<lparr>type := SingleColorShader, o_color := vec4 1 1 0 1,
           mul_color_modifier := vec4 (1 / 2) 1 1 1, add_color_modifier := vec4 0 0 (1 / 4) 0\<rparr>"]
    by (simp add: quad_packed_def exact_externals_def upt_rec)
  have c: "idx (ToMesh exact_externals quad_packed) = [0, 1, 2, 1, 3, 2]"
    "object_matrix (ToMesh exact_externals quad_packed) = 3 / 2"
    "texture (ToMesh exact_externals quad_packed) = Some 7"
    by (simp_all add: ToMesh_def quad_packed_def)
  show ?thesis
    using a b c by simp
qed

section \<open>Mesh::NormalizeTriangleOrientation\<close>

text \<open>
  C5. On a mesh whose index count is divisible by 3 and whose indices are below the
  vertex count, \<^verbatim>\<open>NormalizeTriangleOrientation()\<close> returns the mesh with, for every
  triangle, the first index kept, the second and third kept when the signed area is not
  negative and exchanged when it is. When exchanging the second and third corner negates
  the signed area (as the signed area of a triangle does; \<^verbatim>\<open>Triangle::SignedArea\<close> is
  not among the sources), afterwards no triangle has a negative signed area, and the
  operation applied to the result returns the result.
\<close>

theorem NormalizeTriangleOrientation_orients:
  fixes X :: "('f::linordered_ab_group_add, 'm, 'r, 'p) externals"
  assumes "length (idx this) mod 3 = 0"
      and "\<forall>i\<in>set (idx this). unat i < length (verts this)"
  shows "\<exists>result. NormalizeTriangleOrientation X this = Inr result
     \<and> verts result = verts this \<and> object_matrix result = object_matrix this
     \<and> texture result = texture this
     \<and> length (idx result) = length (idx this)
     \<and> (\<forall>k. 3 * k + 2 < length (idx this) \<longrightarrow>
          idx result ! (3 * k) = idx this ! (3 * k)
        \<and> (0 \<le> triangle_area X (verts this) (idx this) k \<longrightarrow>
              idx result ! (3 * k + 1) = idx this ! (3 * k + 1)
            \<and> idx result ! (3 * k + 2) = idx this ! (3 * k + 2))
        \<and> (triangle_area X (verts this) (idx this) k < 0 \<longrightarrow>
              idx result ! (3 * k + 1) = idx this ! (3 * k + 2)
            \<and> idx result ! (3 * k + 2) = idx this ! (3 * k + 1)))
     \<and> ((\<forall>a b c. SignedArea X a c b = - SignedArea X a b c) \<longrightarrow>
          (\<forall>k. 3 * k + 2 < length (idx this) \<longrightarrow>
             0 \<le> triangle_area X (verts result) (idx result) k)
        \<and> NormalizeTriangleOrientation X result = Inr result)"
proof -
  from NormalizeTriangleOrientation_char [OF assms(1,2), of X] obtain ys where
    ys: "NormalizeTriangleOrientation X this = Inr (this\<lparr>idx := ys\<rparr>)
     \<and> length ys = length (idx this) \<and> set ys = set (idx this)
     \<and> (\<forall>k. 3 * k + 2 < length (idx this) \<longrightarrow>
          ys ! (3 * k) = idx this ! (3 * k)
        \<and> ys ! (3 * k + 1) =
            (if triangle_area X (verts this) (idx this) k < 0
             then idx this ! (3 * k + 2) else idx this ! (3 * k + 1))
        \<and> ys ! (3 * k + 2) =
            (if triangle_area X (verts this) (idx this) k < 0
             then idx this ! (3 * k + 1) else idx this ! (3 * k + 2)))" ..
  note res = ys [THEN conjunct1]
  note len = ys [THEN conjunct2, THEN conjunct1]
  note set = ys [THEN conjunct2, THEN conjunct2, THEN conjunct1]
  note tri = ys [THEN conjunct2, THEN conjunct2, THEN conjunct2, rule_format]
  define result where "result = this\<lparr>idx := ys\<rparr>"
  have sel: "verts result = verts this" "object_matrix result = object_matrix this"
    "texture result = texture this" "idx result = ys"
    by (simp_all add: result_def)
  have each: "idx result ! (3 * k) = idx this ! (3 * k)
        \<and> (0 \<le> triangle_area X (verts this) (idx this) k \<longrightarrow>
              idx result ! (3 * k + 1) = idx this ! (3 * k + 1)
            \<and> idx result ! (3 * k + 2) = idx this ! (3 * k + 2))
        \<and> (triangle_area X (verts this) (idx this) k < 0 \<longrightarrow>
              idx result ! (3 * k + 1) = idx this ! (3 * k + 2)
            \<and> idx result ! (3 * k + 2) = idx this ! (3 * k + 1))"
    if k: "3 * k + 2 < length (idx this)" for k
  proof (cases "triangle_area X (verts this) (idx this) k < 0")
    case True
    then have "\<not> 0 \<le> triangle_area X (verts this) (idx this) k"
      by (simp only: not_le)
    then show ?thesis
      using True tri [OF k] unfolding sel by simp
  next
    case False
    then have "0 \<le> triangle_area X (verts this) (idx this) k"
      by (simp only: not_less)
    then show ?thesis
      using False tri [OF k] unfolding sel by simp
  qed
  have after: "0 \<le> triangle_area X (verts this) ys k"
    if anti: "\<forall>a b c. SignedArea X a c b = - SignedArea X a b c"
      and k: "3 * k + 2 < length (idx this)" for k
  proof (cases "triangle_area X (verts this) (idx this) k < 0")
    case True
    then have "triangle_area X (verts this) ys k =
        SignedArea X (position (verts this ! unat (idx this ! (3 * k))))
          (position (verts this ! unat (idx this ! (3 * k + 2))))
          (position (verts this ! unat (idx this ! (3 * k + 1))))"
      using tri [OF k] by (simp add: triangle_area_def)
    also have "\<dots> = - triangle_area X (verts this) (idx this) k"
      unfolding triangle_area_def by (rule anti [rule_format])
    finally show ?thesis
      using True by simp
  next
    case False
    then have "triangle_area X (verts this) ys k = triangle_area X (verts this) (idx this) k"
      using tri [OF k] by (simp add: triangle_area_def)
    then show ?thesis
      using False by simp
  qed
  have idem: "NormalizeTriangleOrientation X result = Inr result"
    if anti: "\<forall>a b c. SignedArea X a c b = - SignedArea X a b c"
  proof -
    have mod': "length (idx result) mod 3 = 0"
      using assms(1) len sel by simp
    have range': "\<forall>i\<in>set (idx result). unat i < length (verts result)"
      using assms(2) set sel by simp
    from NormalizeTriangleOrientation_char [OF mod' range', of X] obtain zs where
      zs: "NormalizeTriangleOrientation X result = Inr (result\<lparr>idx := zs\<rparr>)
       \<and> length zs = length (idx result) \<and> set zs = set (idx result)
       \<and> (\<forall>k. 3 * k + 2 < length (idx result) \<longrightarrow>
            zs ! (3 * k) = idx result ! (3 * k)
          \<and> zs ! (3 * k + 1) =
              (if triangle_area X (verts result) (idx result) k < 0
               then idx result ! (3 * k + 2) else idx result ! (3 * k + 1))
          \<and> zs ! (3 * k + 2) =
              (if triangle_area X (verts result) (idx result) k < 0
               then idx result ! (3 * k + 1) else idx result ! (3 * k + 2)))" ..
    note res2 = zs [THEN conjunct1]
    note len2 = zs [unfolded sel, THEN conjunct2, THEN conjunct1]
    note tri2 = zs [unfolded sel, THEN conjunct2, THEN conjunct2, THEN conjunct2, rule_format]
    have "zs = ys"
    proof (rule triples_eqI [OF len2])
      show "length ys mod 3 = 0"
        using assms(1) len by simp
    next
      fix k
      assume k: "3 * k + 2 < length ys"
      then have "\<not> triangle_area X (verts this) ys k < 0"
        using after [OF anti, of k] len by simp
      then show "zs ! (3 * k) = ys ! (3 * k) \<and> zs ! (3 * k + 1) = ys ! (3 * k + 1)
         \<and> zs ! (3 * k + 2) = ys ! (3 * k + 2)"
        using tri2 [OF k] by simp
    qed
    then show ?thesis
      using res2 by (simp add: result_def)
  qed
  show ?thesis
  proof (intro exI [of _ result] conjI impI)
    show "NormalizeTriangleOrientation X this = Inr result"
      using res by (simp add: result_def)
    show "verts result = verts this" and "object_matrix result = object_matrix this"
      and "texture result = texture this"
      by (rule sel)+
    show "length (idx result) = length (idx this)"
      using len sel by simp
    show "\<forall>k. 3 * k + 2 < length (idx this) \<longrightarrow>
          idx result ! (3 * k) = idx this ! (3 * k)
        \<and> (0 \<le> triangle_area X (verts this) (idx this) k \<longrightarrow>
              idx result ! (3 * k + 1) = idx this ! (3 * k + 1)
            \<and> idx result ! (3 * k + 2) = idx this ! (3 * k + 2))
        \<and> (triangle_area X (verts this) (idx this) k < 0 \<longrightarrow>
              idx result ! (3 * k + 1) = idx this ! (3 * k + 2)
            \<and> idx result ! (3 * k + 2) = idx this ! (3 * k + 1))"
      using each by (intro allI impI)
  next
    assume anti: "\<forall>a b c. SignedArea X a c b = - SignedArea X a b c"
    show "\<forall>k. 3 * k + 2 < length (idx this) \<longrightarrow>
        0 \<le> triangle_area X (verts result) (idx result) k"
      using after [OF anti] unfolding sel by (intro allI impI)
  next
    assume anti: "\<forall>a b c. SignedArea X a c b = - SignedArea X a b c"
    show "NormalizeTriangleOrientation X result = Inr result"
      by (rule idem [OF anti])
  qed
qed

theorem NormalizeTriangleOrientation_orients_witness:
  "length (idx quad_mesh) mod 3 = 0
   \<and> list_all (\<lambda>i. unat i < length (verts quad_mesh)) (idx quad_mesh)
   \<and> NormalizeTriangleOrientation exact_externals quad_mesh =
       Inr (quad_mesh\<lparr>idx := [0, 1, 2, 1, 3, 2]\<rparr>)
   \<and> triangle_area exact_externals (verts quad_mesh) (idx quad_mesh) 0 = 8
   \<and> triangle_area exact_externals (verts quad_mesh) (idx quad_mesh) 1 = - 8
   \<and> triangle_area exact_externals (verts quad_mesh) [0, 1, 2, 1, 3, 2] 1 = 8
   \<and> NormalizeTriangleOrientation exact_externals (quad_mesh\<lparr>idx := [0, 1, 2, 1, 3, 2]\<rparr>) =
       Inr (quad_mesh\<lparr>idx := [0, 1, 2, 1, 3, 2]\<rparr>)"
proof -
  have h1: "length (idx quad_mesh) mod 3 = 0"
    by (simp add: quad_mesh_def)
  have h2: "\<forall>i\<in>set (idx quad_mesh). unat i < length (verts quad_mesh)"
    by (simp add: quad_mesh_def)
  have h3: "\<forall>a b c. SignedArea exact_externals a c b = - SignedArea exact_externals a b c"
    by (simp add: exact_externals_def field_simps)
  from NormalizeTriangleOrientation_orients [OF h1 h2, of exact_externals] obtain result where
    r: "NormalizeTriangleOrientation exact_externals quad_mesh = Inr result"
    and idem: "NormalizeTriangleOrientation exact_externals result = Inr result"
    using h3 by (elim exE conjE impE) (assumption, rule that, assumption+)
  have "result = quad_mesh\<lparr>idx := [0, 1, 2, 1, 3, 2]\<rparr>"
    using r quad_mesh_oriented by simp
  then have i: "NormalizeTriangleOrientation exact_externals (quad_mesh\<lparr>idx := [0, 1, 2, 1, 3, 2]\<rparr>) =
       Inr (quad_mesh\<lparr>idx := [0, 1, 2, 1, 3, 2]\<rparr>)"
    using idem by simp
  have a: "triangle_area exact_externals (verts quad_mesh) (idx quad_mesh) 0 = 8"
    "triangle_area exact_externals (verts quad_mesh) (idx quad_mesh) 1 = - 8"
    "triangle_area exact_externals (verts quad_mesh) [0, 1, 2, 1, 3, 2] 1 = 8"
    by (simp_all add: triangle_area_def quad_mesh_def exact_externals_def)
  have l: "list_all (\<lambda>i. unat i < length (verts quad_mesh)) (idx quad_mesh)"
    by (simp add: quad_mesh_def)
  show ?thesis
    using h1 l quad_mesh_oriented a i by simp
qed

section \<open>The constructor of OptimizedMesh\<close>

text \<open>
  C6. The object matrix of a constructed \<^verbatim>\<open>OptimizedMesh\<close> is the source mesh's object
  matrix times the inverse of the transform \<^verbatim>\<open>CalcTransformForFormat\<close> gives for the
  envelope and the vertex format of the shader type; the two-argument constructor takes
  the mesh's own envelope.
\<close>

theorem OptimizedMesh_object_matrix:
  "(OptimizedMesh_from X ty mesh envelope = Inr this \<longrightarrow>
      (\<exists>fmt. VertexFormat ty = Inr fmt
         \<and> o_object_matrix this =
             object_matrix mesh * inverse (CalcTransformForFormat X envelope fmt)))
   \<and> (OptimizedMesh_of X ty mesh = Inr this \<longrightarrow>
      (\<exists>fmt. VertexFormat ty = Inr fmt
         \<and> o_object_matrix this =
             object_matrix mesh *
             inverse (CalcTransformForFormat X (Envelope X (verts mesh)) fmt)))"
proof -
  have "\<exists>fmt. VertexFormat ty = Inr fmt
         \<and> o_object_matrix this = object_matrix mesh * inverse (CalcTransformForFormat X e fmt)"
    if "OptimizedMesh_from X ty mesh e = Inr this" for e
    using OptimizedMesh_build_fields [OF that [unfolded OptimizedMesh_from_build]] by blast
  then show ?thesis
    by (simp add: OptimizedMesh_of_def)
qed

theorem OptimizedMesh_object_matrix_witness:
  "OptimizedMesh_from exact_externals ColoredVertShader quad_mesh ((0, 0), (4, 4)) = Inr quad_packed
   \<and> VertexFormat ColoredVertShader = Inr x11a7r6y11g7b6
   \<and> CalcTransformForFormat exact_externals ((0, 0), (4, 4)) x11a7r6y11g7b6 = 2
   \<and> object_matrix quad_mesh = 3
   \<and> o_object_matrix quad_packed = 3 * inverse 2"
  using OptimizedMesh_object_matrix [of exact_externals ColoredVertShader quad_mesh
      "((0, 0), (4, 4))" quad_packed] quad_mesh_packed
  by (simp add: VertexFormat_def exact_externals_def quad_mesh_def quad_packed_def)

text \<open>
  C1, as the claim has it: 16-bit indices if and only if the vertex count is below 65536.
  \<open>wide_mesh\<close> has 65535 vertices and the constructor gives it 32-bit indices.
\<close>

theorem OptimizedMesh_32_bit_at_65535:
  "map_sum id o_idx (OptimizedMesh_of exact_externals SingleColorShader wide_mesh) =
     Inr (Idx32 [0, 1, 2])
   \<and> length (verts wide_mesh) = 65535
   \<and> length (verts wide_mesh) < 65536"
  by (simp add: OptimizedMesh_of_def OptimizedMesh_from_def OptimizedMesh_build_def wide_mesh_def
      exact_externals_def VertexFormat_def kMax16_def NormalizeTriangleHelper_def
      NormalizeTriangleLoop.simps packed_position_getter_def Validate_def IndexSize_def)

text \<open>
  C1, amended. A constructed \<^verbatim>\<open>OptimizedMesh\<close> holds the 16-bit alternative if and only
  if the source mesh has fewer than 65535 vertices (\<^verbatim>\<open>kMax16\<close>, the largest
  \<^verbatim>\<open>uint16_t\<close>), which is when \<^verbatim>\<open>Mesh::Has16BitIndex\<close> holds of the source, and
  the 32-bit alternative otherwise. For a source mesh whose indices
  are all below its vertex count, the chosen alternative has as many indices as the
  source, and in every triangle the first index is the source's and the second and third
  are the source's, in their order or exchanged.
\<close>

theorem OptimizedMesh_index_variant:
  assumes "OptimizedMesh_from X ty mesh envelope = Inr this"
      and "\<forall>i\<in>set (idx mesh). unat i < length (verts mesh)"
  shows "((\<exists>v. o_idx this = Idx16 v) \<longleftrightarrow> length (verts mesh) < 65535)
     \<and> ((\<exists>v. o_idx this = Idx32 v) \<longleftrightarrow> 65535 \<le> length (verts mesh))
     \<and> ((\<exists>v. o_idx this = Idx16 v) \<longleftrightarrow> Has16BitIndex mesh)
     \<and> IndexSize this = length (idx mesh)
     \<and> (\<forall>k. 3 * k + 2 < length (idx mesh) \<longrightarrow>
          IndexAt this (3 * k) = Inr (idx mesh ! (3 * k))
        \<and> (IndexAt this (3 * k + 1) = Inr (idx mesh ! (3 * k + 1))
             \<and> IndexAt this (3 * k + 2) = Inr (idx mesh ! (3 * k + 2))
           \<or> IndexAt this (3 * k + 1) = Inr (idx mesh ! (3 * k + 2))
             \<and> IndexAt this (3 * k + 2) = Inr (idx mesh ! (3 * k + 1))))"
proof -
  note build = assms(1) [unfolded OptimizedMesh_from_build]
  have size: "IndexSize this = length (idx mesh)"
    by (rule OptimizedMesh_build_IndexSize [OF build])
  have k16: "kMax16 = 65535"
    by (simp add: kMax16_def)
  from OptimizedMesh_build_idx [OF build] show ?thesis
  proof (elim disjE conjE exE)
    fix ys :: "16 word list"
    assume small: "length (verts mesh) < kMax16"
      and run: "NormalizeTriangleHelper (packed_position_getter X (o_verts this)) (SignedArea X)
         (map ucast (idx mesh)) = Inr ys"
      and ix: "o_idx this = Idx16 ys"
    have len: "length ys = length (idx mesh)"
      using NormalizeTriangleHelper_Inr [OF run] by simp
    have widen: "ucast (ucast (idx mesh ! j) :: 16 word) = idx mesh ! j" if "j < length (idx mesh)" for j
    proof -
      have "unat (idx mesh ! j) < length (verts mesh)"
        using assms(2) that by simp
      then have "unat (idx mesh ! j) < 2 ^ 16"
        using small k16 by simp
      then show ?thesis
        by (rule ucast32_ucast16)
    qed
    have at: "IndexAt this j = Inr (ucast (ys ! j))" if "j < length (idx mesh)" for j
      using that len ix by (simp add: IndexAt_def)
    have each: "IndexAt this (3 * k) = Inr (idx mesh ! (3 * k))
        \<and> (IndexAt this (3 * k + 1) = Inr (idx mesh ! (3 * k + 1))
             \<and> IndexAt this (3 * k + 2) = Inr (idx mesh ! (3 * k + 2))
           \<or> IndexAt this (3 * k + 1) = Inr (idx mesh ! (3 * k + 2))
             \<and> IndexAt this (3 * k + 2) = Inr (idx mesh ! (3 * k + 1)))"
      if k: "3 * k + 2 < length (idx mesh)" for k
    proof -
      have k': "3 * k + 2 < length (map ucast (idx mesh) :: 16 word list)"
        using k by simp
      have j: "3 * k < length (idx mesh)" "3 * k + 1 < length (idx mesh)"
        using k by simp_all
      from NormalizeTriangleHelper_triples [OF run k']
      have "ys ! (3 * k) = ucast (idx mesh ! (3 * k))
        \<and> (ys ! (3 * k + 1) = ucast (idx mesh ! (3 * k + 1))
             \<and> ys ! (3 * k + 2) = ucast (idx mesh ! (3 * k + 2))
           \<or> ys ! (3 * k + 1) = ucast (idx mesh ! (3 * k + 2))
             \<and> ys ! (3 * k + 2) = ucast (idx mesh ! (3 * k + 1)))"
        using k j by (simp only: nth_map)
      then show ?thesis
        using at [OF j(1)] at [OF j(2)] at [OF k] widen [OF j(1)] widen [OF j(2)] widen [OF k]
        by auto
    qed
    show ?thesis
      using small k16 ix size each by (simp add: Has16BitIndex_def)
  next
    fix ys :: "32 word list"
    assume large: "kMax16 \<le> length (verts mesh)"
      and run: "NormalizeTriangleHelper (packed_position_getter X (o_verts this)) (SignedArea X)
         (idx mesh) = Inr ys"
      and ix: "o_idx this = Idx32 ys"
    have len: "length ys = length (idx mesh)"
      using NormalizeTriangleHelper_Inr [OF run] by simp
    have at: "IndexAt this j = Inr (ys ! j)" if "j < length (idx mesh)" for j
      using that len ix by (simp add: IndexAt_def)
    have each: "IndexAt this (3 * k) = Inr (idx mesh ! (3 * k))
        \<and> (IndexAt this (3 * k + 1) = Inr (idx mesh ! (3 * k + 1))
             \<and> IndexAt this (3 * k + 2) = Inr (idx mesh ! (3 * k + 2))
           \<or> IndexAt this (3 * k + 1) = Inr (idx mesh ! (3 * k + 2))
             \<and> IndexAt this (3 * k + 2) = Inr (idx mesh ! (3 * k + 1)))"
      if k: "3 * k + 2 < length (idx mesh)" for k
    proof -
      have j: "3 * k < length (idx mesh)" "3 * k + 1 < length (idx mesh)"
        using k by simp_all
      show ?thesis
        using NormalizeTriangleHelper_triples [OF run k] at [OF j(1)] at [OF j(2)] at [OF k]
        by auto
    qed
    show ?thesis
      using large k16 ix size each by (simp add: Has16BitIndex_def)
  qed
qed

theorem OptimizedMesh_index_variant_witness:
  "OptimizedMesh_from exact_externals ColoredVertShader quad_mesh ((0, 0), (4, 4)) = Inr quad_packed
   \<and> list_all (\<lambda>i. unat i < length (verts quad_mesh)) (idx quad_mesh)
   \<and> length (verts quad_mesh) = 4
   \<and> o_idx quad_packed = Idx16 [0, 1, 2, 1, 3, 2]
   \<and> idx quad_mesh = [0, 1, 2, 1, 2, 3]
   \<and> IndexSize quad_packed = length (idx quad_mesh)
   \<and> IndexAt quad_packed 3 = Inr (idx quad_mesh ! 3)
   \<and> IndexAt quad_packed 4 = Inr (idx quad_mesh ! 5)
   \<and> IndexAt quad_packed 5 = Inr (idx quad_mesh ! 4)"
proof -
  have h: "\<forall>i\<in>set (idx quad_mesh). unat i < length (verts quad_mesh)"
    by (simp add: quad_mesh_def)
  note t = OptimizedMesh_index_variant [OF quad_mesh_packed h]
  have "IndexSize quad_packed = length (idx quad_mesh)"
    using t by simp
  moreover have "IndexAt quad_packed 3 = Inr (idx quad_mesh ! 3)"
    using t [THEN conjunct2, THEN conjunct2, THEN conjunct2, THEN conjunct2, rule_format, of 1]
    by (simp add: quad_mesh_def)
  ultimately show ?thesis
    using quad_mesh_packed
    by (simp add: quad_mesh_def quad_packed_def IndexAt_def)
qed

text \<open>
  C10. The constructor on a mesh without vertices reads the first vertex in its member
  initializers, before either \<^verbatim>\<open>EXPECT\<close>; on a mesh with vertices whose index sequence
  is empty or not a multiple of 3 long, it fails the first \<^verbatim>\<open>EXPECT\<close>. A constructed
  mesh comes from a source with vertices and a non-empty index sequence of a length
  divisible by 3. For such a source the assertion of \<^verbatim>\<open>Validate()\<close> is never the
  failure: whenever the steps before \<^verbatim>\<open>Validate()\<close> succeed, it succeeds and the
  constructor returns; and they do succeed when the envelope contains the mesh's, the
  shader type has a vertex format and every index has a packed vertex.
\<close>

theorem OptimizedMesh_precondition:
  "(verts mesh = [] \<longrightarrow> OptimizedMesh_from X ty mesh envelope = Inl UndefinedBehavior)
   \<and> (verts mesh \<noteq> [] \<and> (idx mesh = [] \<or> length (idx mesh) mod 3 \<noteq> 0) \<longrightarrow>
        OptimizedMesh_from X ty mesh envelope =
          Inl (ExpectFailed ''!mesh.idx.empty() && mesh.idx.size() % 3 == 0''))
   \<and> (OptimizedMesh_from X ty mesh envelope = Inr this \<longrightarrow>
        verts mesh \<noteq> [] \<and> idx mesh \<noteq> [] \<and> length (idx mesh) mod 3 = 0)
   \<and> (verts mesh \<noteq> [] \<and> idx mesh \<noteq> [] \<and> length (idx mesh) mod 3 = 0 \<longrightarrow>
        OptimizedMesh_from X ty mesh envelope \<noteq> Inl (AssertFailed ''IndexSize() % 3 == 0'')
      \<and> (OptimizedMesh_build X ty mesh envelope = Inr this \<longrightarrow>
            Validate this = Inr () \<and> OptimizedMesh_from X ty mesh envelope = Inr this)
      \<and> (Contains X envelope (Envelope X (verts mesh)) \<and> VertexFormat ty = Inr fmt
          \<and> (\<forall>i\<in>set (idx mesh). unat i <
                size_packed X (PackVerts X (verts mesh) (CalcTransformForFormat X envelope fmt) fmt))
          \<longrightarrow> (\<exists>made. OptimizedMesh_from X ty mesh envelope = Inr made)))"
proof (intro conjI impI)
  assume "verts mesh = []"
  then show "OptimizedMesh_from X ty mesh envelope = Inl UndefinedBehavior"
    by (simp add: OptimizedMesh_from_def OptimizedMesh_build_def)
next
  assume "verts mesh \<noteq> [] \<and> (idx mesh = [] \<or> length (idx mesh) mod 3 \<noteq> 0)"
  then show "OptimizedMesh_from X ty mesh envelope =
          Inl (ExpectFailed ''!mesh.idx.empty() && mesh.idx.size() % 3 == 0'')"
    by (cases "verts mesh") (auto simp add: OptimizedMesh_from_def OptimizedMesh_build_def)
next
  assume made: "OptimizedMesh_from X ty mesh envelope = Inr this"
  note f = OptimizedMesh_build_fields [OF made [unfolded OptimizedMesh_from_build]]
  show "verts mesh \<noteq> []" and "idx mesh \<noteq> []" and "length (idx mesh) mod 3 = 0"
    using f by simp_all
next
  show "OptimizedMesh_from X ty mesh envelope \<noteq> Inl (AssertFailed ''IndexSize() % 3 == 0'')"
  proof
    assume bad: "OptimizedMesh_from X ty mesh envelope = Inl (AssertFailed ''IndexSize() % 3 == 0'')"
    show False
    proof (cases "OptimizedMesh_build X ty mesh envelope")
      case (Inl e)
      then show ?thesis
        using bad OptimizedMesh_build_no_Validate_error [of X ty mesh envelope]
        by (simp add: OptimizedMesh_from_def)
    next
      case (Inr made)
      then show ?thesis
        using bad OptimizedMesh_build_Validate [OF Inr] by (simp add: OptimizedMesh_from_def)
    qed
  qed
next
  assume b: "OptimizedMesh_build X ty mesh envelope = Inr this"
  show "Validate this = Inr ()"
    by (rule OptimizedMesh_build_Validate [OF b])
  show "OptimizedMesh_from X ty mesh envelope = Inr this"
    using b by (simp only: OptimizedMesh_from_build)
next
  assume pre: "verts mesh \<noteq> [] \<and> idx mesh \<noteq> [] \<and> length (idx mesh) mod 3 = 0"
    and ok: "Contains X envelope (Envelope X (verts mesh)) \<and> VertexFormat ty = Inr fmt
          \<and> (\<forall>i\<in>set (idx mesh). unat i <
                size_packed X (PackVerts X (verts mesh) (CalcTransformForFormat X envelope fmt) fmt))"
  have "\<exists>made. OptimizedMesh_build X ty mesh envelope = Inr made"
    by (rule OptimizedMesh_build_succeeds
        [OF pre [THEN conjunct1] pre [THEN conjunct2, THEN conjunct1]
          pre [THEN conjunct2, THEN conjunct2] ok [THEN conjunct1]
          ok [THEN conjunct2, THEN conjunct1] ok [THEN conjunct2, THEN conjunct2]])
  then show "\<exists>made. OptimizedMesh_from X ty mesh envelope = Inr made"
    by (simp only: OptimizedMesh_from_build)
qed

theorem OptimizedMesh_precondition_witness:
  "OptimizedMesh_from exact_externals ColoredVertShader (quad_mesh\<lparr>verts := []\<rparr>) ((0, 0), (4, 4)) =
     Inl UndefinedBehavior
   \<and> OptimizedMesh_from exact_externals ColoredVertShader (quad_mesh\<lparr>idx := []\<rparr>) ((0, 0), (4, 4)) =
     Inl (ExpectFailed ''!mesh.idx.empty() && mesh.idx.size() % 3 == 0'')
   \<and> OptimizedMesh_from exact_externals ColoredVertShader (quad_mesh\<lparr>idx := [0, 1]\<rparr>) ((0, 0), (4, 4)) =
     Inl (ExpectFailed ''!mesh.idx.empty() && mesh.idx.size() % 3 == 0'')
   \<and> length (idx quad_mesh) = 6 \<and> length (verts quad_mesh) = 4
   \<and> OptimizedMesh_from exact_externals ColoredVertShader quad_mesh ((0, 0), (4, 4)) = Inr quad_packed
   \<and> Validate quad_packed = Inr ()"
  using
    OptimizedMesh_precondition [of "quad_mesh\<lparr>verts := []\<rparr>" exact_externals ColoredVertShader
      "((0, 0), (4, 4))" quad_packed x12y12]
    OptimizedMesh_precondition [of "quad_mesh\<lparr>idx := []\<rparr>" exact_externals ColoredVertShader
      "((0, 0), (4, 4))" quad_packed x12y12]
    OptimizedMesh_precondition [of "quad_mesh\<lparr>idx := [0, 1]\<rparr>" exact_externals ColoredVertShader
      "((0, 0), (4, 4))" quad_packed x12y12]
    OptimizedMesh_precondition [of quad_mesh exact_externals ColoredVertShader
      "((0, 0), (4, 4))" quad_packed x12y12]
    quad_mesh_packed
  by (simp add: quad_mesh_def OptimizedMesh_from_build)

end
